theory Spec2Isabelle
  imports Main "HOL-Library.Word"
begin

section \<open>The command line interface of asn1tools\<close>

text \<open>
  The development embeds \<^verbatim>\<open>src/asn1tools/__init__.py\<close> (the \<^verbatim>\<open>convert\<close> and
  \<^verbatim>\<open>shell\<close> subcommands and the entry point \<^verbatim>\<open>_main\<close>). A leading underscore of a Python
  name is dropped, since an Isabelle name cannot start with one.

  Python text is a \<^typ>\<open>string\<close> (characters up to code point 255), a \<^verbatim>\<open>bytes\<close> value is a
  list of 8-bit words, and every \<^verbatim>\<open>raise\<close> is a value of the type \<open>exn\<close> returned on the left
  of a sum.
\<close>

subsection \<open>Bytes and text\<close>

type_synonym byte = "8 word"

definition quote :: char where
  "quote = CHR 0x27"

definition CR :: char where
  "CR = CHR 0x0D"

definition LF :: char where
  "LF = CHR 0x0A"

text \<open>\<^verbatim>\<open>bytes.decode('latin-1')\<close>: every byte is the character of the same code point.\<close>

definition decode_latin1 :: "byte list \<Rightarrow> string" where
  "decode_latin1 bs = map (\<lambda>b. char_of (unat b)) bs"

definition byte_of_char :: "char \<Rightarrow> byte" where
  "byte_of_char c = word_of_nat (of_char c)"

text \<open>\<^verbatim>\<open>s.strip(chars)\<close>: leading and trailing characters of \<open>chars\<close> are removed.\<close>

definition strip_chars :: "'a list \<Rightarrow> 'a list \<Rightarrow> 'a list" where
  "strip_chars chars s =
     rev (dropWhile (\<lambda>c. c \<in> set chars) (rev (dropWhile (\<lambda>c. c \<in> set chars) s)))"

text \<open>
  \<^verbatim>\<open>str.isspace\<close> on the characters a \<^typ>\<open>char\<close> can hold: the ASCII white space, the
  separators 0x1C to 0x1F, NEL and the no-break space.
\<close>

definition whitespace :: "char list" where
  "whitespace = [CHR 0x20, CHR 0x09, CHR 0x0A, CHR 0x0B, CHR 0x0C, CHR 0x0D,
                 CHR 0x1C, CHR 0x1D, CHR 0x1E, CHR 0x1F, CHR 0x85, CHR 0xA0]"

text \<open>\<^verbatim>\<open>str.strip()\<close> without an argument.\<close>

definition strip :: "string \<Rightarrow> string" where
  "strip s = strip_chars whitespace s"

text \<open>\<^verbatim>\<open>bytes.strip()\<close> without an argument removes the ASCII white space only.\<close>

definition strip_bytes :: "byte list \<Rightarrow> byte list" where
  "strip_bytes bs = strip_chars [0x20, 0x09, 0x0A, 0x0B, 0x0C, 0x0D] bs"

text \<open>\<^verbatim>\<open>str.split()\<close> without an argument: the maximal runs of characters that are not white space.\<close>

fun split_acc :: "string \<Rightarrow> string \<Rightarrow> string list" where
  "split_acc cur [] = (if cur = [] then [] else [rev cur])"
| "split_acc cur (c # cs) =
     (if c \<in> set whitespace
      then (if cur = [] then split_acc [] cs else rev cur # split_acc [] cs)
      else split_acc (c # cur) cs)"

definition split :: "string \<Rightarrow> string list" where
  "split s = split_acc [] s"

definition startswith :: "string \<Rightarrow> string \<Rightarrow> bool" where
  "startswith s p = (take (length p) s = p)"

subsection \<open>binascii\<close>

definition hex_digit :: "char \<Rightarrow> nat option" where
  "hex_digit c =
     (let n = (of_char c :: nat) in
      if 48 \<le> n \<and> n \<le> 57 then Some (n - 48)
      else if 97 \<le> n \<and> n \<le> 102 then Some (n - 87)
      else if 65 \<le> n \<and> n \<le> 70 then Some (n - 55)
      else None)"

fun unhex_pairs :: "string \<Rightarrow> byte list option" where
  "unhex_pairs [] = Some []"
| "unhex_pairs [c] = None"
| "unhex_pairs (a # b # cs) =
     (case hex_digit a of
        None \<Rightarrow> None
      | Some x \<Rightarrow>
          (case hex_digit b of
             None \<Rightarrow> None
           | Some y \<Rightarrow> map_option ((#) (word_of_nat (16 * x + y))) (unhex_pairs cs)))"

text \<open>
  \<^verbatim>\<open>binascii.unhexlify\<close> of a text: the left side is the message of the exception it
  raises (a text with a character outside ASCII, an odd number of characters, or a character
  that is no hexadecimal digit).
\<close>

definition unhexlify :: "string \<Rightarrow> string + byte list" where
  "unhexlify s =
     (if list_ex (\<lambda>c. (of_char c :: nat) \<ge> 128) s
      then Inl ''string argument should contain only ASCII characters''
      else if odd (length s) then Inl ''Odd-length string''
      else (case unhex_pairs s of
              None \<Rightarrow> Inl ''Non-hexadecimal digit found''
            | Some bs \<Rightarrow> Inr bs))"

definition hex_char :: "nat \<Rightarrow> byte" where
  "hex_char n = (if n < 10 then word_of_nat (48 + n) else word_of_nat (87 + n))"

text \<open>\<^verbatim>\<open>binascii.hexlify\<close>: two lower-case hexadecimal digits for every byte.\<close>

definition hexlify :: "byte list \<Rightarrow> byte list" where
  "hexlify bs = concat (map (\<lambda>b. [hex_char (unat b div 16), hex_char (unat b mod 16)]) bs)"

subsection \<open>Exceptions\<close>

text \<open>
  The exception classes the program names, each with its message. \<open>OtherException\<close> is any
  other subclass of \<^verbatim>\<open>Exception\<close>; \<open>KeyboardInterrupt\<close> is the class below
  \<^verbatim>\<open>BaseException\<close> and not below \<^verbatim>\<open>Exception\<close> that any call can raise.
\<close>

datatype exn =
    TypeError string
  | DecodeError string
  | EncodeError string
  | ParseError string
  | CompileError string
  | ConstraintsError string
  | ArgumentParserError string
  | OtherException string
  | KeyboardInterrupt

text \<open>\<^verbatim>\<open>str(e)\<close>\<close>

fun str :: "exn \<Rightarrow> string" where
  "str (TypeError m) = m"
| "str (DecodeError m) = m"
| "str (EncodeError m) = m"
| "str (ParseError m) = m"
| "str (CompileError m) = m"
| "str (ConstraintsError m) = m"
| "str (ArgumentParserError m) = m"
| "str (OtherException m) = m"
| "str KeyboardInterrupt = []"

text \<open>What \<^verbatim>\<open>except Exception\<close> catches.\<close>

fun is_Exception :: "exn \<Rightarrow> bool" where
  "is_Exception KeyboardInterrupt = False"
| "is_Exception _ = True"

subsection \<open>The process's surroundings\<close>

text \<open>
  What the program leaves behind: the lines printed to standard output and to standard
  error (one entry for each \<^verbatim>\<open>print\<close>), the level given to \<^verbatim>\<open>logging.basicConfig\<close>, and
  the paths of the files it binds for writing.
\<close>

datatype log_level = CRITICAL | WARNING | DEBUG

record world =
  stdout :: "string list"
  stderr :: "string list"
  logging :: "log_level option"
  files :: "string list"

definition print :: "string \<Rightarrow> world \<Rightarrow> world" where
  "print s w = w\<lparr>stdout := stdout w @ [s]\<rparr>"

subsection \<open>Compiled specifications\<close>

text \<open>
  The compiler and the codecs (\<^verbatim>\<open>asn1tools.compiler\<close>, \<^verbatim>\<open>asn1tools.parser\<close>) are not part
  of these sources. A compiled specification is the pair of its two methods; \<open>'v\<close> is the
  type of decoded values. The third argument of \<open>encode\<close> is the keyword \<^verbatim>\<open>indent\<close>.
\<close>

record 'v Specification =
  decode :: "string \<Rightarrow> byte list \<Rightarrow> exn + 'v"
  encode :: "string \<Rightarrow> 'v \<Rightarrow> nat option \<Rightarrow> exn + byte list"

subsection \<open>\<^verbatim>\<open>_convert_hexstring\<close>\<close>

definition convert_hexstring ::
  "'v Specification \<Rightarrow> 'v Specification \<Rightarrow> string \<Rightarrow> string \<Rightarrow> string \<Rightarrow> world
     \<Rightarrow> (exn + unit) \<times> world" where
  "convert_hexstring input_spec output_spec output_codec type_name hexstring w =
     (case unhexlify hexstring of
        Inl m \<Rightarrow> (Inl (TypeError ([quote] @ hexstring @ [quote] @ '': '' @ m)), w)
      | Inr encoded \<Rightarrow>
          (case decode input_spec type_name encoded of
             Inl e \<Rightarrow> (Inl e, w)
           | Inr decoded \<Rightarrow>
               (case (if output_codec \<in> set [''gser'', ''xer'', ''jer'']
                      then map_sum id strip_bytes (encode output_spec type_name decoded (Some 4))
                      else map_sum id hexlify (encode output_spec type_name decoded None)) of
                  Inl e \<Rightarrow> (Inl e, w)
                | Inr text \<Rightarrow> (Inr (), print (decode_latin1 text) w))))"

subsection \<open>The libraries the program calls\<close>

text \<open>
  Code the program calls and these sources do not hold is a parameter of the model:
  \<^item> \<open>parse_files\<close> and \<open>compile_dict\<close>, the parser and the compiler of the package (\<open>'p\<close> is
    the type of parsed modules);
  \<^item> for each argument parser the program builds, how \<^verbatim>\<open>argparse\<close> splits an argument vector
    into the values given to each option, in the order given, and the positional
    arguments (\<open>scan_main\<close>, \<open>scan_compile\<close>, \<open>scan_convert\<close>), and how it words its
    messages (\<open>format_usage\<close>, \<open>format_error\<close>);
  \<^item> \<open>py_int\<close>, Python's conversion of a text to an integer;
  \<^item> \<open>prog\<close>, the program's name, and \<open>expanduser\<close>, the user's home directory.
  What the source tells \<^verbatim>\<open>argparse\<close> about an argument (its \<^verbatim>\<open>type\<close>, \<^verbatim>\<open>choices\<close> and
  \<^verbatim>\<open>default\<close>) is applied by the model, to the values the split hands over.
\<close>

datatype usage_error =
    Invalid_choice string string
  | Invalid_value string string
  | Usage string

text \<open>
  The result of splitting an argument vector: the split, a usage error, or a text printed
  before \<^verbatim>\<open>parser.exit()\<close> is called (the help, the version).
\<close>

datatype 'a scanned = Split 'a | Error usage_error | Exits string

record compile_raw =
  raw_input_codec :: "string list"
  raw_output_codec :: "string list"
  raw_specification :: "string list"

record convert_raw = compile_raw +
  raw_type :: string
  raw_hexstring :: string

text \<open>
  What the main parser finds after the name of the subcommand: the split of the \<^verbatim>\<open>convert\<close>
  subparser, a usage error that subparser raises while splitting, or the subcommand
  \<^verbatim>\<open>shell\<close>.
\<close>

datatype subcommand_raw = Convert_raw convert_raw | Convert_error usage_error | Shell_raw

record main_raw =
  raw_debug :: bool
  raw_verbose :: "string list"
  raw_subcommand :: subcommand_raw

record ('p, 'v) library =
  parse_files :: "string list \<Rightarrow> exn + 'p"
  compile_dict :: "'p \<Rightarrow> string \<Rightarrow> exn + 'v Specification"
  scan_main :: "string list \<Rightarrow> main_raw scanned"
  scan_compile :: "string list \<Rightarrow> compile_raw scanned"
  scan_convert :: "string list \<Rightarrow> (string \<times> string) scanned"
  format_usage :: "string \<Rightarrow> string"
  format_error :: "usage_error \<Rightarrow> string"
  py_int :: "string \<Rightarrow> int option"
  prog :: string
  expanduser :: "string \<Rightarrow> string"

subsection \<open>\<^verbatim>\<open>_compile_files\<close>\<close>

definition compile_files ::
  "('p, 'v) library \<Rightarrow> string list \<Rightarrow> string \<Rightarrow> string
     \<Rightarrow> exn + ('v Specification \<times> 'v Specification)" where
  "compile_files lib specifications input_codec output_codec =
     (case parse_files lib specifications of
        Inl e \<Rightarrow> Inl e
      | Inr parsed \<Rightarrow>
          (case compile_dict lib parsed input_codec of
             Inl e \<Rightarrow> Inl e
           | Inr input_spec \<Rightarrow>
               (case compile_dict lib parsed output_codec of
                  Inl e \<Rightarrow> Inl e
                | Inr output_spec \<Rightarrow> Inr (input_spec, output_spec))))"

subsection \<open>\<^verbatim>\<open>_do_convert\<close>\<close>

text \<open>
  The parsed arguments of a conversion: the field \<open>arg_x\<close> is \<^verbatim>\<open>args.x\<close> of the namespace
  \<^verbatim>\<open>argparse\<close> returns.
\<close>

record compile_args =
  arg_input_codec :: string
  arg_output_codec :: string
  arg_specification :: "string list"

record convert_args = compile_args +
  arg_type :: string
  arg_hexstring :: string

text \<open>
  The loop over the lines of standard input (\<^verbatim>\<open>for hexstring in sys.stdin\<close>). An exception
  that is neither a \<^verbatim>\<open>TypeError\<close> nor a \<^verbatim>\<open>DecodeError\<close> leaves the loop.
\<close>

fun convert_lines ::
  "'v Specification \<Rightarrow> 'v Specification \<Rightarrow> string \<Rightarrow> string \<Rightarrow> string list \<Rightarrow> world
     \<Rightarrow> (exn + unit) \<times> world" where
  "convert_lines input_spec output_spec output_codec type_name [] w = (Inr (), w)"
| "convert_lines input_spec output_spec output_codec type_name (line # rest) w =
     (let hexstring = strip_chars [CR, LF] line in
      if hexstring \<noteq> [] then
        (case convert_hexstring input_spec output_spec output_codec type_name hexstring w of
           (Inr u, w1) \<Rightarrow> convert_lines input_spec output_spec output_codec type_name rest w1
         | (Inl (TypeError m), w1) \<Rightarrow>
             convert_lines input_spec output_spec output_codec type_name rest
               (print hexstring w1)
         | (Inl (DecodeError m), w1) \<Rightarrow>
             convert_lines input_spec output_spec output_codec type_name rest
               (print m (print hexstring w1))
         | (Inl e, w1) \<Rightarrow> (Inl e, w1))
      else
        convert_lines input_spec output_spec output_codec type_name rest (print hexstring w))"

definition do_convert ::
  "('p, 'v) library \<Rightarrow> convert_args \<Rightarrow> string list \<Rightarrow> world \<Rightarrow> (exn + unit) \<times> world" where
  "do_convert lib args stdin w =
     (case compile_files lib (arg_specification args) (arg_input_codec args)
             (arg_output_codec args) of
        Inl e \<Rightarrow> (Inl e, w)
      | Inr (input_spec, output_spec) \<Rightarrow>
          if arg_hexstring args = ''-'' then
            convert_lines input_spec output_spec (arg_output_codec args) (arg_type args) stdin w
          else
            convert_hexstring input_spec output_spec (arg_output_codec args) (arg_type args)
              (arg_hexstring args) w)"

subsection \<open>Argument parsers\<close>

text \<open>
  The action \<^verbatim>\<open>store\<close> of \<^verbatim>\<open>argparse\<close> on the values given to one option, first to last:
  each value is converted (\<^verbatim>\<open>type\<close>) and looked up in \<^verbatim>\<open>choices\<close>, and the last one stays.
  An option that is not given keeps its default.
\<close>

fun store ::
  "(string \<Rightarrow> 'a option) \<Rightarrow> string \<Rightarrow> 'a list \<Rightarrow> 'a \<Rightarrow> string list \<Rightarrow> usage_error + 'a" where
  "store conv opt choices cur [] = Inr cur"
| "store conv opt choices cur (v # vs) =
     (case conv v of
        None \<Rightarrow> Inl (Invalid_value opt v)
      | Some x \<Rightarrow>
          if x \<in> set choices then store conv opt choices x vs
          else Inl (Invalid_choice opt v))"

text \<open>
  The options \<^verbatim>\<open>-i\<close> and \<^verbatim>\<open>-o\<close>. The parser of the shell's \<^verbatim>\<open>compile\<close> command and the
  \<^verbatim>\<open>convert\<close> subparser of \<^verbatim>\<open>_main\<close> declare them with the same choices and defaults.
\<close>

definition input_codec_choices :: "string list" where
  "input_codec_choices = [''ber'', ''der'', ''jer'', ''per'', ''uper'', ''xer'']"

definition output_codec_choices :: "string list" where
  "output_codec_choices = [''ber'', ''der'', ''jer'', ''per'', ''uper'', ''xer'', ''gser'']"

definition codec_options :: "'a compile_raw_scheme \<Rightarrow> usage_error + string \<times> string" where
  "codec_options raw =
     (case store Some ''-i/--input-codec'' input_codec_choices ''ber'' (raw_input_codec raw) of
        Inl e \<Rightarrow> Inl e
      | Inr i \<Rightarrow>
          (case store Some ''-o/--output-codec'' output_codec_choices ''gser''
                  (raw_output_codec raw) of
             Inl e \<Rightarrow> Inl e
           | Inr out \<Rightarrow> Inr (i, out)))"

text \<open>The parser \<^verbatim>\<open>compile\<close> of \<^verbatim>\<open>_handle_command_compile\<close>.\<close>

definition compile_parser :: "('p, 'v) library \<Rightarrow> string list \<Rightarrow> compile_args scanned" where
  "compile_parser lib argv =
     (case scan_compile lib argv of
        Split raw \<Rightarrow>
          (case codec_options raw of
             Inl e \<Rightarrow> Error e
           | Inr (i, out) \<Rightarrow>
               Split \<lparr>arg_input_codec = i, arg_output_codec = out,
                      arg_specification = raw_specification raw\<rparr>)
      | Error e \<Rightarrow> Error e
      | Exits t \<Rightarrow> Exits t)"

text \<open>
  The class \<^verbatim>\<open>ArgumentParser\<close> of the program, which the shell's commands use: \<^verbatim>\<open>error\<close>
  prints the usage and the message to standard output, and both \<^verbatim>\<open>error\<close> and \<^verbatim>\<open>exit\<close>
  raise \<^verbatim>\<open>ArgumentParserError\<close>.
\<close>

definition shell_parse_args ::
  "('p, 'v) library \<Rightarrow> string \<Rightarrow> 'a scanned \<Rightarrow> world \<Rightarrow> (exn + 'a) \<times> world" where
  "shell_parse_args lib name r w =
     (case r of
        Split a \<Rightarrow> (Inr a, w)
      | Error e \<Rightarrow>
          (let message = name @ '': error: '' @ format_error lib e
           in (Inl (ArgumentParserError message), print message (print (format_usage lib name) w)))
      | Exits t \<Rightarrow> (Inl (ArgumentParserError ''None''), print t w))"

subsection \<open>The shell\<close>

text \<open>
  The three variables \<^verbatim>\<open>input_spec\<close>, \<^verbatim>\<open>output_spec\<close> and \<^verbatim>\<open>output_codec\<close> of \<^verbatim>\<open>_do_shell\<close> are
  assigned together only, all \<^verbatim>\<open>None\<close> or all from one compilation: they are one optional triple.
\<close>

type_synonym 'v compiled = "('v Specification \<times> 'v Specification \<times> string) option"

definition handle_command_compile ::
  "('p, 'v) library \<Rightarrow> string \<Rightarrow> world \<Rightarrow> (exn + 'v compiled) \<times> world" where
  "handle_command_compile lib line w =
     (case shell_parse_args lib ''compile'' (compile_parser lib (tl (split line))) w of
        (Inl e, w1) \<Rightarrow> (Inr None, w1)
      | (Inr args, w1) \<Rightarrow>
          (case compile_files lib (arg_specification args) (arg_input_codec args)
                  (arg_output_codec args) of
             Inr (input_spec, output_spec) \<Rightarrow>
               (Inr (Some (input_spec, output_spec, arg_output_codec args)), w1)
           | Inl e \<Rightarrow>
               if is_Exception e then (Inr None, print (''error: '' @ str e) w1)
               else (Inl e, w1)))"

definition no_compiled_specification :: string where
  "no_compiled_specification =
     ''No compiled specification found. Please use the '' @
     [quote] @ ''compile'' @ [quote] @ '' command to compile one.''"

definition handle_command_convert ::
  "('p, 'v) library \<Rightarrow> string \<Rightarrow> 'v compiled \<Rightarrow> world \<Rightarrow> (exn + unit) \<times> world" where
  "handle_command_convert lib line compiled w =
     (case compiled of
        None \<Rightarrow> (Inr (), print no_compiled_specification w)
      | Some (input_spec, output_spec, output_codec) \<Rightarrow>
          (case shell_parse_args lib ''convert'' (scan_convert lib (tl (split line))) w of
             (Inl e, w1) \<Rightarrow> (Inr (), w1)
           | (Inr (type_name, hexstring), w1) \<Rightarrow>
               (case convert_hexstring input_spec output_spec output_codec type_name
                       hexstring w1 of
                  (Inl e, w2) \<Rightarrow>
                    if is_Exception e then (Inr (), print (''error: '' @ str e) w2)
                    else (Inl e, w2)
                | (Inr u, w2) \<Rightarrow> (Inr (), w2))))"

definition handle_command_help :: "world \<Rightarrow> world" where
  "handle_command_help w =
     print ''  help'' (print ''  exit'' (print ''  convert'' (print ''  compile''
       (print ''Commands:'' w))))"

text \<open>
  The loop of \<^verbatim>\<open>_do_shell\<close> over the lines the user types; the end of the list is the end
  of the input (\<^verbatim>\<open>EOFError\<close>).
\<close>

fun shell_loop ::
  "('p, 'v) library \<Rightarrow> 'v compiled \<Rightarrow> string list \<Rightarrow> world \<Rightarrow> (exn + unit) \<times> world" where
  "shell_loop lib compiled [] w = (Inr (), w)"
| "shell_loop lib compiled (typed # rest) w =
     (let line = strip typed in
      if line \<noteq> [] then
        if startswith line ''compile'' then
          (case handle_command_compile lib line w of
             (Inl e, w1) \<Rightarrow> (Inl e, w1)
           | (Inr compiled1, w1) \<Rightarrow> shell_loop lib compiled1 rest w1)
        else if startswith line ''convert'' then
          (case handle_command_convert lib line compiled w of
             (Inl e, w1) \<Rightarrow> (Inl e, w1)
           | (Inr u, w1) \<Rightarrow> shell_loop lib compiled rest w1)
        else if line = ''help'' then shell_loop lib compiled rest (handle_command_help w)
        else if line = ''exit'' then (Inr (), w)
        else shell_loop lib compiled rest (print (line @ '': command not found'') w)
      else shell_loop lib compiled rest w)"

text \<open>\<^verbatim>\<open>os.path.join\<close> of two components (POSIX).\<close>

definition os_path_join :: "string \<Rightarrow> string \<Rightarrow> string" where
  "os_path_join a b =
     (if startswith b ''/'' then b
      else if a = [] \<or> last a = CHR ''/'' then a @ b
      else a @ ''/'' @ b)"

text \<open>\<^verbatim>\<open>FileHistory(path)\<close>: the shell's history is kept in the file at \<open>path\<close>.\<close>

definition FileHistory :: "string \<Rightarrow> world \<Rightarrow> world" where
  "FileHistory path w = w\<lparr>files := files w @ [path]\<rparr>"

definition do_shell :: "('p, 'v) library \<Rightarrow> string list \<Rightarrow> world \<Rightarrow> (exn + unit) \<times> world" where
  "do_shell lib typed w =
     (let user_home = expanduser lib ''~'';
          w1 = FileHistory (os_path_join user_home ''.asn1tools-history.txt'') w;
          w2 = print ([LF] @ ''Welcome to the asn1tools shell!'' @ [LF]) w1
      in shell_loop lib None typed w2)"

subsection \<open>\<^verbatim>\<open>_main\<close>\<close>

text \<open>
  The namespace of the main parser. \<open>arg_func\<close> is \<^verbatim>\<open>args.func\<close>, the function of the
  chosen subcommand, with the arguments the \<^verbatim>\<open>convert\<close> subparser adds to the namespace.
\<close>

datatype func = Do_convert convert_args | Do_shell

record args =
  arg_debug :: bool
  arg_verbose :: int
  arg_func :: func

text \<open>
  \<^verbatim>\<open>ArgumentParser.error\<close> of the library: the usage and the message go to standard error
  and the process exits with status 2.
\<close>

definition parser_error ::
  "('p, 'v) library \<Rightarrow> string \<Rightarrow> usage_error \<Rightarrow> world \<Rightarrow> (int + 'a) \<times> world" where
  "parser_error lib name e w =
     (Inl 2, w\<lparr>stderr := stderr w @ [format_usage lib name,
                                      name @ '': error: '' @ format_error lib e]\<rparr>)"

definition verbose_choices :: "int list" where
  "verbose_choices = [0, 1, 2]"

definition parse_args ::
  "('p, 'v) library \<Rightarrow> string list \<Rightarrow> world \<Rightarrow> (int + args) \<times> world" where
  "parse_args lib argv w =
     (case scan_main lib argv of
        Exits t \<Rightarrow> (Inl 0, print t w)
      | Error e \<Rightarrow> parser_error lib (prog lib) e w
      | Split raw \<Rightarrow>
          (case store (py_int lib) ''-v/--verbose'' verbose_choices 1 (raw_verbose raw) of
             Inl e \<Rightarrow> parser_error lib (prog lib) e w
           | Inr v \<Rightarrow>
               (case raw_subcommand raw of
                  Shell_raw \<Rightarrow>
                    (Inr \<lparr>arg_debug = raw_debug raw, arg_verbose = v, arg_func = Do_shell\<rparr>, w)
                | Convert_error e \<Rightarrow> parser_error lib (prog lib @ '' convert'') e w
                | Convert_raw c \<Rightarrow>
                    (case codec_options c of
                       Inl e \<Rightarrow> parser_error lib (prog lib @ '' convert'') e w
                     | Inr (i, out) \<Rightarrow>
                         (Inr \<lparr>arg_debug = raw_debug raw, arg_verbose = v,
                               arg_func = Do_convert
                                 \<lparr>arg_input_codec = i, arg_output_codec = out,
                                  arg_specification = raw_specification c,
                                  arg_type = raw_type c,
                                  arg_hexstring = raw_hexstring c\<rparr>\<rparr>, w)))))"

definition levels :: "log_level list" where
  "levels = [CRITICAL, WARNING, DEBUG]"

text \<open>
  \<^verbatim>\<open>xs[i]\<close> of a Python list: an index below zero counts from the end, and an index
  outside the list raises \<^verbatim>\<open>IndexError\<close>.
\<close>

definition getitem :: "'a list \<Rightarrow> int \<Rightarrow> exn + 'a" where
  "getitem xs i =
     (if 0 \<le> i \<and> i < int (length xs) then Inr (xs ! nat i)
      else if i < 0 \<and> - int (length xs) \<le> i then Inr (xs ! nat (int (length xs) + i))
      else Inl (OtherException ''list index out of range''))"

definition basicConfig :: "log_level \<Rightarrow> world \<Rightarrow> world" where
  "basicConfig level w = w\<lparr>logging := Some level\<rparr>"

text \<open>\<^verbatim>\<open>args.func(args)\<close>; \<open>stdin\<close> and \<open>typed\<close> are what the subcommand reads.\<close>

definition call_func ::
  "('p, 'v) library \<Rightarrow> args \<Rightarrow> string list \<Rightarrow> string list \<Rightarrow> world \<Rightarrow> (exn + unit) \<times> world" where
  "call_func lib args stdin typed w =
     (case arg_func args of
        Do_convert a \<Rightarrow> do_convert lib a stdin w
      | Do_shell \<Rightarrow> do_shell lib typed w)"

text \<open>
  How \<^verbatim>\<open>_main\<close> ends: it returns, it leaves through \<^verbatim>\<open>sys.exit\<close> with a status, or an
  exception leaves it.
\<close>

datatype outcome = Return | SystemExit int | Raise exn

text \<open>\<^verbatim>\<open>sys.exit\<close> of a text: the text goes to standard error and the status is 1.\<close>

definition sys_exit :: "string \<Rightarrow> world \<Rightarrow> outcome \<times> world" where
  "sys_exit s w = (SystemExit 1, w\<lparr>stderr := stderr w @ [s]\<rparr>)"

definition main ::
  "('p, 'v) library \<Rightarrow> string list \<Rightarrow> string list \<Rightarrow> string list \<Rightarrow> world
     \<Rightarrow> outcome \<times> world" where
  "main lib argv stdin typed w =
     (case parse_args lib argv w of
        (Inl status, w1) \<Rightarrow> (SystemExit status, w1)
      | (Inr args, w1) \<Rightarrow>
          (case getitem levels (arg_verbose args) of
             Inl e \<Rightarrow> (Raise e, w1)
           | Inr level \<Rightarrow>
               (let w2 = basicConfig level w1 in
                if arg_debug args then
                  (case call_func lib args stdin typed w2 of
                     (Inl e, w3) \<Rightarrow> (Raise e, w3)
                   | (Inr u, w3) \<Rightarrow> (Return, w3))
                else
                  (case call_func lib args stdin typed w2 of
                     (Inl e, w3) \<Rightarrow> sys_exit (''error: '' @ str e) w3
                   | (Inr u, w3) \<Rightarrow> (Return, w3)))))"

text \<open>
  The status the process ends with: 0 when \<^verbatim>\<open>_main\<close> returns, the status given to
  \<^verbatim>\<open>sys.exit\<close>, and 1 when the interpreter ends on an exception below \<^verbatim>\<open>Exception\<close>. On a
  \<^verbatim>\<open>KeyboardInterrupt\<close> the interpreter (CPython from 3.8 on) ends the process by the signal
  SIGINT, which a shell reports as 130.
\<close>

fun exit_code :: "outcome \<Rightarrow> int" where
  "exit_code Return = 0"
| "exit_code (SystemExit n) = n"
| "exit_code (Raise e) = (if is_Exception e then 1 else 130)"

subsection \<open>A library for the examples\<close>

text \<open>
  The theorems below hold for every library. The examples apply them to this one: a
  schema with the single type \<^verbatim>\<open>T ::= BOOLEAN\<close>, a decoder of its BER encoding, and a
  splitter of argument vectors that knows the options written as \<^verbatim>\<open>-d\<close>, \<^verbatim>\<open>-v N\<close>,
  \<^verbatim>\<open>-i CODEC\<close> and \<^verbatim>\<open>-o CODEC\<close>.
\<close>

definition example_decode :: "string \<Rightarrow> byte list \<Rightarrow> exn + bool" where
  "example_decode t bs =
     (if bs = [0x01, 0x01, 0xFF] then Inr True
      else if bs = [0x01, 0x01, 0x00] then Inr False
      else Inl (DecodeError ''expected BOOLEAN''))"

definition example_compile_dict :: "unit \<Rightarrow> string \<Rightarrow> exn + bool Specification" where
  "example_compile_dict parsed codec =
     Inr \<lparr>decode = example_decode,
          encode = (\<lambda>t v indent.
            if codec = ''gser'' then Inr (map byte_of_char (if v then ''TRUE'' else ''FALSE''))
            else if codec = ''ber'' then Inr [0x01, 0x01, if v then 0xFF else 0x00]
            else Inl (EncodeError ''no encoder''))\<rparr>"

definition example_parse_files :: "string list \<Rightarrow> exn + unit" where
  "example_parse_files names =
     (if ''missing.asn'' \<in> set names then Inl (OtherException ''No such file: missing.asn'')
      else Inr ())"

definition no_options :: compile_raw where
  "no_options = \<lparr>raw_input_codec = [], raw_output_codec = [], raw_specification = []\<rparr>"

fun example_options :: "compile_raw \<Rightarrow> string list \<Rightarrow> compile_raw" where
  "example_options raw [] = raw"
| "example_options raw [a] = raw\<lparr>raw_specification := raw_specification raw @ [a]\<rparr>"
| "example_options raw (a # b # rest) =
     (if a = ''-i'' then
        example_options (raw\<lparr>raw_input_codec := raw_input_codec raw @ [b]\<rparr>) rest
      else if a = ''-o'' then
        example_options (raw\<lparr>raw_output_codec := raw_output_codec raw @ [b]\<rparr>) rest
      else
        example_options (raw\<lparr>raw_specification := raw_specification raw @ [a]\<rparr>) (b # rest))"

definition example_scan_compile :: "string list \<Rightarrow> compile_raw scanned" where
  "example_scan_compile argv =
     (let raw = example_options no_options argv in
      if raw_specification raw = [] then Error (Usage ''specification is required'')
      else Split raw)"

definition example_scan_convert :: "string list \<Rightarrow> (string \<times> string) scanned" where
  "example_scan_convert argv =
     (case argv of
        [t, h] \<Rightarrow> Split (t, h)
      | _ \<Rightarrow> Error (Usage ''type and hexstring are required''))"

fun example_scan_main :: "bool \<Rightarrow> string list \<Rightarrow> string list \<Rightarrow> main_raw scanned" where
  "example_scan_main d v [] = Error (Usage ''subcommand is required'')"
| "example_scan_main d v (a # rest) =
     (if a = ''-d'' then example_scan_main True v rest
      else if a = ''-v'' then
        (case rest of
           [] \<Rightarrow> Error (Usage ''expected one argument'')
         | b # rest2 \<Rightarrow> example_scan_main d (v @ [b]) rest2)
      else if a = ''shell'' then
        Split \<lparr>raw_debug = d, raw_verbose = v, raw_subcommand = Shell_raw\<rparr>
      else if a = ''convert'' then
        (let raw = example_options no_options rest; ps = raw_specification raw in
         if length ps < 3 then
           Split \<lparr>raw_debug = d, raw_verbose = v,
                  raw_subcommand =
                    Convert_error (Usage ''specification, type and hexstring are required'')\<rparr>
         else Split \<lparr>raw_debug = d, raw_verbose = v,
                     raw_subcommand = Convert_raw
                       \<lparr>raw_input_codec = raw_input_codec raw,
                        raw_output_codec = raw_output_codec raw,
                        raw_specification = butlast (butlast ps),
                        raw_type = last (butlast ps),
                        raw_hexstring = last ps\<rparr>\<rparr>)
      else Error (Usage ''invalid choice''))"

definition example_int :: "string \<Rightarrow> int option" where
  "example_int s =
     (if s = ''0'' then Some 0 else if s = ''1'' then Some 1 else if s = ''2'' then Some 2
      else if s = ''3'' then Some 3 else None)"

definition example_library :: "(unit, bool) library" where
  "example_library =
     \<lparr>parse_files = example_parse_files,
      compile_dict = example_compile_dict,
      scan_main = example_scan_main False [],
      scan_compile = example_scan_compile,
      scan_convert = example_scan_convert,
      format_usage = (\<lambda>name. ''usage: '' @ name),
      format_error = (\<lambda>e. case e of
                         Invalid_choice opt v \<Rightarrow> ''argument '' @ opt @ '': invalid choice: '' @ v
                       | Invalid_value opt v \<Rightarrow> ''argument '' @ opt @ '': invalid value: '' @ v
                       | Usage m \<Rightarrow> m),
      py_int = example_int,
      prog = ''asn1tools'',
      expanduser = (\<lambda>p. ''/home/user'' @ tl p)\<rparr>"

definition world0 :: world where
  "world0 = \<lparr>stdout = [], stderr = [], logging = None, files = []\<rparr>"

definition example_args :: convert_args where
  "example_args =
     \<lparr>arg_input_codec = ''ber'', arg_output_codec = ''gser'', arg_specification = [''a.asn''],
      arg_type = ''T'', arg_hexstring = ''-''\<rparr>"

definition example_spec :: "string \<Rightarrow> bool Specification" where
  "example_spec codec = projr (example_compile_dict () codec)"

text \<open>
  \<open>only_prints w w1\<close>: between the states \<open>w\<close> and \<open>w1\<close> nothing but standard output has
  changed.
\<close>

definition only_prints :: "world \<Rightarrow> world \<Rightarrow> bool" where
  "only_prints w w1 = (stderr w1 = stderr w \<and> logging w1 = logging w \<and> files w1 = files w)"

section \<open>Conversion of standard input\<close>

subsection \<open>One conversion\<close>

text \<open>A conversion that raises has printed nothing; one that returns has printed one line.\<close>

lemma convert_hexstring_raises:
  "convert_hexstring i out c t h w = (Inl e, w1) \<Longrightarrow> w1 = w"
  by (auto simp: convert_hexstring_def split: sum.splits if_splits)

lemma convert_hexstring_returns:
  "convert_hexstring i out c t h w = (Inr u, w1) \<Longrightarrow> \<exists>s. w1 = print s w"
  by (auto simp: convert_hexstring_def split: sum.splits if_splits)

subsection \<open>The loop\<close>

text \<open>The loop over a list of lines is the loop over a first part, then over the rest.\<close>

lemma convert_lines_append:
  "convert_lines i out c t (xs @ ys) w =
     (case convert_lines i out c t xs w of
        (Inr u, w1) \<Rightarrow> convert_lines i out c t ys w1
      | (Inl e, w1) \<Rightarrow> (Inl e, w1))"
proof (induction xs arbitrary: w)
  case Nil
  show ?case by simp
next
  case (Cons x xs)
  show ?case
    by (simp add: Cons.IH Let_def split: prod.splits sum.splits exn.splits)
qed

text \<open>The loop only adds lines to standard output.\<close>

lemma convert_lines_stdout:
  "\<exists>printed. stdout (snd (convert_lines i out c t ls w)) = stdout w @ printed"
proof (induction ls arbitrary: w)
  case Nil
  show ?case by simp
next
  case (Cons l ls)
  let ?h = "strip_chars [CR, LF] l"
  show ?case
  proof (cases "?h = []")
    case True
    from Cons.IH [of "print ?h w"] show ?thesis
      using True by (auto simp: print_def)
  next
    case False
    obtain r w1 where r: "convert_hexstring i out c t ?h w = (r, w1)"
      by (cases "convert_hexstring i out c t ?h w")
    show ?thesis
    proof (cases r)
      case (Inr u)
      with r obtain s where "w1 = print s w"
        using convert_hexstring_returns by blast
      with Cons.IH [of w1] show ?thesis
        using False r Inr by (auto simp: print_def)
    next
      case (Inl e)
      with r have w1: "w1 = w" using convert_hexstring_raises by blast
      show ?thesis
        using False r Inl w1 Cons.IH [of "print ?h w"]
          Cons.IH [of "print (str e) (print ?h w)"]
        by (cases e) (auto simp: print_def)
    qed
  qed
qed

lemma example_compiled:
  "compile_files example_library [''a.asn''] ''ber'' ''gser''
     = Inr (example_spec ''ber'', example_spec ''gser'')"
  by (simp add: compile_files_def example_library_def example_parse_files_def
      example_compile_dict_def example_spec_def)

subsection \<open>Lines that fail to convert\<close>

text \<open>
  Claim C1, as the spec states it: in the \<^verbatim>\<open>convert\<close> subcommand with the hexstring \<^verbatim>\<open>-\<close>,
  every line of standard input whose conversion fails is echoed to standard output,
  followed by the diagnostic of the failure.

  The code does this for a \<^verbatim>\<open>DecodeError\<close> only. The line \<^verbatim>\<open>zz\<close> is no hexstring: its
  conversion fails with a \<^verbatim>\<open>TypeError\<close> and a diagnostic, and the line alone is printed.
\<close>

theorem C1_counterexample:
  "fst (convert_hexstring (example_spec ''ber'') (example_spec ''gser'') ''gser'' ''T'' ''zz''
          world0)
     = Inl (TypeError ([quote] @ ''zz'' @ [quote] @ '': Non-hexadecimal digit found''))
   \<and> stdout (snd (do_convert example_library example_args [''zz'' @ [LF]] world0)) = [''zz'']"
  by code_simp

text \<open>
  Claim C1, amended: in the \<^verbatim>\<open>convert\<close> subcommand with the hexstring \<^verbatim>\<open>-\<close>, one value is
  read from each line of standard input, and every line whose conversion fails with a
  \<^verbatim>\<open>DecodeError\<close> is echoed to standard output, followed by the message of the error; the
  loop then goes on with the lines after it.

  Here \<open>earlier\<close> are the lines before \<open>line\<close>, none of which ends the loop, and \<open>w1\<close> is the
  state they leave.
\<close>

theorem C1_decode_error_echoed:
  assumes compiled:
      "compile_files lib (arg_specification args) (arg_input_codec args) (arg_output_codec args)
         = Inr (input_spec, output_spec)"
    and stdin_mode: "arg_hexstring args = ''-''"
    and earlier:
      "convert_lines input_spec output_spec (arg_output_codec args) (arg_type args) earlier w
         = (Inr (), w1)"
    and nonempty: "strip_chars [CR, LF] line \<noteq> []"
    and fails:
      "fst (convert_hexstring input_spec output_spec (arg_output_codec args) (arg_type args)
              (strip_chars [CR, LF] line) w1) = Inl (DecodeError m)"
  shows "do_convert lib args (earlier @ line # later) w =
           convert_lines input_spec output_spec (arg_output_codec args) (arg_type args) later
             (print m (print (strip_chars [CR, LF] line) w1))
         \<and> (\<exists>printed. stdout (snd (do_convert lib args (earlier @ line # later) w)) =
               stdout w1 @ [strip_chars [CR, LF] line, m] @ printed)"
proof -
  let ?h = "strip_chars [CR, LF] line"
  let ?loop = "convert_lines input_spec output_spec (arg_output_codec args) (arg_type args)"
  obtain w2 where step:
    "convert_hexstring input_spec output_spec (arg_output_codec args) (arg_type args) ?h w1
       = (Inl (DecodeError m), w2)"
    using fails by (metis prod.collapse)
  then have "w2 = w1" by (rule convert_hexstring_raises)
  with step nonempty have one: "?loop (line # later) w1 = ?loop later (print m (print ?h w1))"
    by simp
  have "do_convert lib args (earlier @ line # later) w = ?loop (earlier @ line # later) w"
    using compiled stdin_mode by (simp add: do_convert_def)
  also have "\<dots> = ?loop (line # later) w1"
    using earlier by (simp add: convert_lines_append)
  finally have eq: "do_convert lib args (earlier @ line # later) w
      = ?loop later (print m (print ?h w1))"
    using one by simp
  obtain printed where
    "stdout (snd (?loop later (print m (print ?h w1)))) = stdout (print m (print ?h w1)) @ printed"
    using convert_lines_stdout by blast
  then have "stdout (snd (do_convert lib args (earlier @ line # later) w))
      = stdout w1 @ [?h, m] @ printed"
    using eq by (simp add: print_def)
  with eq show ?thesis by blast
qed

text \<open>
  The theorem at three lines of standard input: \<^verbatim>\<open>0101ff\<close> converts, \<^verbatim>\<open>0101\<close> fails to
  decode, \<^verbatim>\<open>010100\<close> converts.
\<close>

theorem C1_decode_error_echoed_witness:
  "do_convert example_library example_args
     ([''0101ff'' @ [LF]] @ (''0101'' @ [LF]) # [''010100'']) world0
   = (Inr (), world0\<lparr>stdout := [''TRUE'', ''0101'', ''expected BOOLEAN'', ''FALSE'']\<rparr>)"
proof -
  let ?w1 = "world0\<lparr>stdout := [''TRUE'']\<rparr>"
  have h1: "compile_files example_library (arg_specification example_args)
      (arg_input_codec example_args) (arg_output_codec example_args)
      = Inr (example_spec ''ber'', example_spec ''gser'')"
    by (simp add: example_args_def example_compiled)
  have h2: "arg_hexstring example_args = ''-''"
    by (simp add: example_args_def)
  have h3: "convert_lines (example_spec ''ber'') (example_spec ''gser'')
      (arg_output_codec example_args) (arg_type example_args) [''0101ff'' @ [LF]] world0
      = (Inr (), ?w1)"
    by code_simp
  have h4: "strip_chars [CR, LF] (''0101'' @ [LF]) \<noteq> []"
    by code_simp
  have h5: "fst (convert_hexstring (example_spec ''ber'') (example_spec ''gser'')
      (arg_output_codec example_args) (arg_type example_args)
      (strip_chars [CR, LF] (''0101'' @ [LF])) ?w1) = Inl (DecodeError ''expected BOOLEAN'')"
    by code_simp
  have "do_convert example_library example_args
      ([''0101ff'' @ [LF]] @ (''0101'' @ [LF]) # [''010100'']) world0
    = convert_lines (example_spec ''ber'') (example_spec ''gser'')
        (arg_output_codec example_args) (arg_type example_args) [''010100'']
        (print ''expected BOOLEAN'' (print (strip_chars [CR, LF] (''0101'' @ [LF])) ?w1))"
    by (rule conjunct1 [OF C1_decode_error_echoed [OF h1 h2 h3 h4 h5]])
  also have "\<dots> = (Inr (), world0\<lparr>stdout := [''TRUE'', ''0101'', ''expected BOOLEAN'', ''FALSE'']\<rparr>)"
    by code_simp
  finally show ?thesis .
qed

text \<open>
  Claim C9: in the \<^verbatim>\<open>convert\<close> subcommand with the hexstring \<^verbatim>\<open>-\<close>, a line that is not
  empty and is no valid hexstring (\<^verbatim>\<open>unhexlify\<close> fails) is echoed to standard output with
  no diagnostic; an empty line is echoed as it is, and nothing is decoded for it; in both
  cases the loop goes on with the lines after it.

  The two equations hold for every input specification, also one whose decoder would
  raise: the state the later lines start from is the state before the line with the one
  line printed.
\<close>

theorem C9_not_hex_or_empty_echoed:
  assumes compiled:
      "compile_files lib (arg_specification args) (arg_input_codec args) (arg_output_codec args)
         = Inr (input_spec, output_spec)"
    and stdin_mode: "arg_hexstring args = ''-''"
    and earlier:
      "convert_lines input_spec output_spec (arg_output_codec args) (arg_type args) earlier w
         = (Inr (), w1)"
  shows "(strip_chars [CR, LF] line \<noteq> [] \<and> unhexlify (strip_chars [CR, LF] line) = Inl reason
            \<longrightarrow> do_convert lib args (earlier @ line # later) w =
                  convert_lines input_spec output_spec (arg_output_codec args) (arg_type args)
                    later (print (strip_chars [CR, LF] line) w1))
       \<and> (strip_chars [CR, LF] line = []
            \<longrightarrow> do_convert lib args (earlier @ line # later) w =
                  convert_lines input_spec output_spec (arg_output_codec args) (arg_type args)
                    later (print [] w1))"
proof -
  let ?loop = "convert_lines input_spec output_spec (arg_output_codec args) (arg_type args)"
  have "do_convert lib args (earlier @ line # later) w = ?loop (earlier @ line # later) w"
    using compiled stdin_mode by (simp add: do_convert_def)
  also have "\<dots> = ?loop (line # later) w1"
    using earlier by (simp add: convert_lines_append)
  finally have start: "do_convert lib args (earlier @ line # later) w = ?loop (line # later) w1" .
  show ?thesis
    by (simp add: start convert_hexstring_def)
qed

text \<open>
  The theorem at the lines \<^verbatim>\<open>0101ff\<close>, \<^verbatim>\<open>zz\<close>, an empty line and \<^verbatim>\<open>010100\<close>, and at the
  same lines with the empty one (ended by CR LF) before \<^verbatim>\<open>zz\<close>.
\<close>

theorem C9_not_hex_or_empty_echoed_witness:
  "do_convert example_library example_args
     ([''0101ff'' @ [LF]] @ (''zz'' @ [LF]) # [[LF], ''010100'']) world0
   = (Inr (), world0\<lparr>stdout := [''TRUE'', ''zz'', [], ''FALSE'']\<rparr>)
   \<and> do_convert example_library example_args
     ([''0101ff'' @ [LF]] @ [CR, LF] # [''zz'', ''010100'']) world0
   = (Inr (), world0\<lparr>stdout := [''TRUE'', [], ''zz'', ''FALSE'']\<rparr>)"
proof -
  let ?w1 = "world0\<lparr>stdout := [''TRUE'']\<rparr>"
  let ?loop = "convert_lines (example_spec ''ber'') (example_spec ''gser'')
      (arg_output_codec example_args) (arg_type example_args)"
  have h1: "compile_files example_library (arg_specification example_args)
      (arg_input_codec example_args) (arg_output_codec example_args)
      = Inr (example_spec ''ber'', example_spec ''gser'')"
    by (simp add: example_args_def example_compiled)
  have h2: "arg_hexstring example_args = ''-''"
    by (simp add: example_args_def)
  have h3: "?loop [''0101ff'' @ [LF]] world0 = (Inr (), ?w1)"
    by code_simp
  note both = C9_not_hex_or_empty_echoed [OF h1 h2 h3]
  have h4: "strip_chars [CR, LF] (''zz'' @ [LF]) \<noteq> []
      \<and> unhexlify (strip_chars [CR, LF] (''zz'' @ [LF])) = Inl ''Non-hexadecimal digit found''"
    by code_simp
  have "do_convert example_library example_args
      ([''0101ff'' @ [LF]] @ (''zz'' @ [LF]) # [[LF], ''010100'']) world0
    = ?loop [[LF], ''010100''] (print (strip_chars [CR, LF] (''zz'' @ [LF])) ?w1)"
    by (rule mp [OF conjunct1 [OF both] h4])
  also have "\<dots> = (Inr (), world0\<lparr>stdout := [''TRUE'', ''zz'', [], ''FALSE'']\<rparr>)"
    by code_simp
  finally have first: "do_convert example_library example_args
      ([''0101ff'' @ [LF]] @ (''zz'' @ [LF]) # [[LF], ''010100'']) world0
    = (Inr (), world0\<lparr>stdout := [''TRUE'', ''zz'', [], ''FALSE'']\<rparr>)" .
  have h5: "strip_chars [CR, LF] [CR, LF] = []"
    by code_simp
  have "do_convert example_library example_args
      ([''0101ff'' @ [LF]] @ [CR, LF] # [''zz'', ''010100'']) world0
    = ?loop [''zz'', ''010100''] (print [] ?w1)"
    by (rule mp [OF conjunct2 [OF both] h5])
  also have "\<dots> = (Inr (), world0\<lparr>stdout := [''TRUE'', [], ''zz'', ''FALSE'']\<rparr>)"
    by code_simp
  finally show ?thesis using first by simp
qed

section \<open>What the subcommands change\<close>

text \<open>
  The conversions and the commands of the shell print to standard output and change
  nothing else; \<^verbatim>\<open>_do_shell\<close> binds the history file before its loop.
\<close>

lemma only_prints_refl: "only_prints w w"
  by (simp add: only_prints_def)

lemma only_prints_trans: "only_prints w w1 \<Longrightarrow> only_prints w1 w2 \<Longrightarrow> only_prints w w2"
  by (simp add: only_prints_def)

lemma only_prints_print: "only_prints w w1 \<Longrightarrow> only_prints w (print s w1)"
  by (simp add: only_prints_def print_def)

lemma convert_hexstring_only_prints:
  "only_prints w (snd (convert_hexstring i out c t h w))"
  by (auto simp: convert_hexstring_def only_prints_refl only_prints_print
      split: sum.splits)

lemma convert_lines_only_prints:
  "only_prints w (snd (convert_lines i out c t ls w))"
proof (induction ls arbitrary: w)
  case Nil
  show ?case by (simp add: only_prints_refl)
next
  case (Cons l ls)
  let ?h = "strip_chars [CR, LF] l"
  obtain r w1 where r: "convert_hexstring i out c t ?h w = (r, w1)"
    by (cases "convert_hexstring i out c t ?h w")
  then have w1: "only_prints w w1"
    using convert_hexstring_only_prints [of w i out c t ?h] by simp
  have step: "only_prints w w2 \<Longrightarrow> only_prints w (snd (convert_lines i out c t ls w2))" for w2
    using Cons.IH [of w2] by (rule only_prints_trans [rotated])
  show ?case
  proof (cases "?h = []")
    case True
    then show ?thesis
      by (simp add: step only_prints_print only_prints_refl)
  next
    case False
    show ?thesis
    proof (cases r)
      case (Inr u)
      then show ?thesis using False r w1 by (simp add: step)
    next
      case (Inl e)
      then show ?thesis
        using False r w1 by (cases e) (simp_all add: step only_prints_print)
    qed
  qed
qed

lemma do_convert_only_prints:
  "only_prints w (snd (do_convert lib args stdin w))"
  by (auto simp: do_convert_def only_prints_refl convert_lines_only_prints
      convert_hexstring_only_prints split: sum.splits)

lemma shell_parse_args_only_prints:
  "only_prints w (snd (shell_parse_args lib name r w))"
  by (cases r) (simp_all add: shell_parse_args_def Let_def only_prints_refl only_prints_print)

lemma handle_command_compile_only_prints:
  "only_prints w (snd (handle_command_compile lib line w))"
proof -
  obtain r w1 where r:
    "shell_parse_args lib ''compile'' (compile_parser lib (tl (split line))) w = (r, w1)"
    by (cases "shell_parse_args lib ''compile'' (compile_parser lib (tl (split line))) w")
  then have "only_prints w w1"
    using shell_parse_args_only_prints [of w lib "''compile''"] by (metis snd_conv)
  then show ?thesis
    using r by (auto simp: handle_command_compile_def only_prints_print split: sum.splits)
qed

lemma handle_command_convert_only_prints:
  "only_prints w (snd (handle_command_convert lib line compiled w))"
proof (cases compiled)
  case None
  then show ?thesis
    by (simp add: handle_command_convert_def only_prints_print only_prints_refl)
next
  case (Some triple)
  obtain i out c where triple: "triple = (i, out, c)" by (cases triple)
  obtain r w1 where r:
    "shell_parse_args lib ''convert'' (scan_convert lib (tl (split line))) w = (r, w1)"
    by (cases "shell_parse_args lib ''convert'' (scan_convert lib (tl (split line))) w")
  then have w1: "only_prints w w1"
    using shell_parse_args_only_prints [of w lib "''convert''"] by (metis snd_conv)
  show ?thesis
  proof (cases r)
    case (Inl e)
    then show ?thesis using Some triple r w1 by (simp add: handle_command_convert_def)
  next
    case (Inr p)
    obtain t h where p: "p = (t, h)" by (cases p)
    obtain r2 w2 where r2: "convert_hexstring i out c t h w1 = (r2, w2)"
      by (cases "convert_hexstring i out c t h w1")
    then have "only_prints w1 w2"
      using convert_hexstring_only_prints [of w1 i out c t h] by simp
    with w1 have "only_prints w w2" by (rule only_prints_trans)
    then show ?thesis
      using Some triple r Inr p r2
      by (auto simp: handle_command_convert_def only_prints_print split: sum.splits)
  qed
qed

lemma handle_command_help_only_prints:
  "only_prints w (handle_command_help w)"
  by (simp add: handle_command_help_def only_prints_print only_prints_refl)

lemma shell_loop_only_prints:
  "only_prints w (snd (shell_loop lib compiled typed w))"
proof (induction typed arbitrary: compiled w)
  case Nil
  show ?case by (simp add: only_prints_refl)
next
  case (Cons l ls)
  have step: "only_prints w w2 \<Longrightarrow> only_prints w (snd (shell_loop lib c2 ls w2))" for w2 c2
    using Cons.IH [of w2 c2] by (rule only_prints_trans [rotated])
  obtain r1 w1 where r1: "handle_command_compile lib (strip l) w = (r1, w1)"
    by (cases "handle_command_compile lib (strip l) w")
  then have w1: "only_prints w w1"
    using handle_command_compile_only_prints [of w lib "strip l"] by simp
  obtain r2 w2 where r2: "handle_command_convert lib (strip l) compiled w = (r2, w2)"
    by (cases "handle_command_convert lib (strip l) compiled w")
  then have w2: "only_prints w w2"
    using handle_command_convert_only_prints [of w lib "strip l" compiled] by simp
  show ?case
    using r1 w1 r2 w2
    by (auto simp: Let_def step only_prints_refl only_prints_print
        handle_command_help_only_prints split: sum.splits)
qed

lemma do_shell_world:
  "stderr (snd (do_shell lib typed w)) = stderr w \<and>
   logging (snd (do_shell lib typed w)) = logging w \<and>
   files (snd (do_shell lib typed w)) =
     files w @ [os_path_join (expanduser lib ''~'') ''.asn1tools-history.txt'']"
proof -
  let ?w2 = "print ([LF] @ ''Welcome to the asn1tools shell!'' @ [LF])
      (FileHistory (os_path_join (expanduser lib ''~'') ''.asn1tools-history.txt'') w)"
  have "only_prints ?w2 (snd (shell_loop lib None typed ?w2))"
    by (rule shell_loop_only_prints)
  then show ?thesis
    by (simp add: do_shell_def Let_def only_prints_def print_def FileHistory_def)
qed

section \<open>Argument parsing\<close>

subsection \<open>Choices and defaults\<close>

lemma store_accepts_iff:
  "(\<exists>x. store conv opt choices d given = Inr x) \<longleftrightarrow>
     (\<forall>v \<in> set given. \<exists>x \<in> set choices. conv v = Some x)"
  by (induction given arbitrary: d) (auto split: option.splits)

lemma store_rejects:
  "(\<exists>e. store conv opt choices d given = Inl e) \<longleftrightarrow>
     \<not> (\<forall>v \<in> set given. \<exists>x \<in> set choices. conv v = Some x)"
  using store_accepts_iff [of conv opt choices d given]
  by (cases "store conv opt choices d given") auto

lemma store_last:
  "store conv opt choices d given = Inr x \<Longrightarrow> given \<noteq> [] \<Longrightarrow>
     conv (last given) = Some x \<and> x \<in> set choices"
  by (induction given arbitrary: d) (auto split: option.splits if_splits)

lemma store_range:
  "store conv opt choices d given = Inr x \<Longrightarrow> d \<in> set choices \<Longrightarrow> x \<in> set choices"
  by (cases "given = []") (auto dest: store_last)

lemma codec_options_accepts_iff:
  "(\<exists>i out. codec_options raw = Inr (i, out)) \<longleftrightarrow>
     set (raw_input_codec raw) \<subseteq> set input_codec_choices \<and>
     set (raw_output_codec raw) \<subseteq> set output_codec_choices"
proof -
  have i: "(\<exists>x. store Some ''-i/--input-codec'' input_codec_choices ''ber'' (raw_input_codec raw) = Inr x)
      \<longleftrightarrow> set (raw_input_codec raw) \<subseteq> set input_codec_choices"
    by (auto simp: store_accepts_iff)
  have out: "(\<exists>x. store Some ''-o/--output-codec'' output_codec_choices ''gser'' (raw_output_codec raw) = Inr x)
      \<longleftrightarrow> set (raw_output_codec raw) \<subseteq> set output_codec_choices"
    by (auto simp: store_accepts_iff)
  show ?thesis
    unfolding i [symmetric] out [symmetric]
    by (auto simp: codec_options_def split: sum.splits)
qed

lemma codec_options_values:
  assumes "codec_options raw = Inr (i, out)"
  shows "(raw_input_codec raw = [] \<longrightarrow> i = ''ber'')
       \<and> (raw_input_codec raw \<noteq> [] \<longrightarrow> i = last (raw_input_codec raw))
       \<and> (raw_output_codec raw = [] \<longrightarrow> out = ''gser'')
       \<and> (raw_output_codec raw \<noteq> [] \<longrightarrow> out = last (raw_output_codec raw))"
  using assms
  by (auto simp: codec_options_def split: sum.splits dest: store_last)

lemma parse_args_accepts_iff:
  assumes "scan_main lib argv = Split raw"
  shows "(\<exists>args. fst (parse_args lib argv w) = Inr args) \<longleftrightarrow>
     (\<forall>s \<in> set (raw_verbose raw). \<exists>n \<in> set verbose_choices. py_int lib s = Some n) \<and>
     (case raw_subcommand raw of
        Shell_raw \<Rightarrow> True
      | Convert_error e \<Rightarrow> False
      | Convert_raw c \<Rightarrow>
          set (raw_input_codec c) \<subseteq> set input_codec_choices \<and>
          set (raw_output_codec c) \<subseteq> set output_codec_choices)"
proof -
  let ?v = "store (py_int lib) ''-v/--verbose'' verbose_choices 1 (raw_verbose raw)"
  show ?thesis
  proof (cases ?v)
    case (Inl e)
    then have "\<not> (\<forall>s \<in> set (raw_verbose raw). \<exists>n \<in> set verbose_choices. py_int lib s = Some n)"
      using store_rejects [of "py_int lib" "''-v/--verbose''" verbose_choices 1 "raw_verbose raw"]
      by blast
    then show ?thesis
      using assms Inl by (auto simp: parse_args_def parser_error_def)
  next
    case (Inr v)
    then have ok: "\<forall>s \<in> set (raw_verbose raw). \<exists>n \<in> set verbose_choices. py_int lib s = Some n"
      using store_accepts_iff [of "py_int lib" "''-v/--verbose''" verbose_choices 1 "raw_verbose raw"]
      by blast
    show ?thesis
    proof (cases "raw_subcommand raw")
      case Shell_raw
      then show ?thesis using assms Inr ok by (simp add: parse_args_def)
    next
      case (Convert_error e)
      then show ?thesis using assms Inr by (simp add: parse_args_def parser_error_def)
    next
      case (Convert_raw c)
      show ?thesis
      proof (cases "codec_options c")
        case (Inl e)
        then have "\<not> (\<exists>i out. codec_options c = Inr (i, out))" by simp
        then have "\<not> (set (raw_input_codec c) \<subseteq> set input_codec_choices \<and>
          set (raw_output_codec c) \<subseteq> set output_codec_choices)"
          using codec_options_accepts_iff [of c] by blast
        then show ?thesis
          using assms Inr Convert_raw Inl by (auto simp: parse_args_def parser_error_def)
      next
        case (Inr p)
        obtain i out where p: "p = (i, out)" by (cases p)
        with Inr have "\<exists>i out. codec_options c = Inr (i, out)" by blast
        then have "set (raw_input_codec c) \<subseteq> set input_codec_choices \<and>
          set (raw_output_codec c) \<subseteq> set output_codec_choices"
          using codec_options_accepts_iff [of c] by blast
        then show ?thesis
          using assms \<open>?v = Inr v\<close> Convert_raw Inr p ok by (simp add: parse_args_def)
      qed
    qed
  qed
qed

lemma parse_args_rejects:
  "fst (parse_args lib argv w) = Inl status \<Longrightarrow> scan_main lib argv = Split raw \<Longrightarrow> status = 2"
  by (auto simp: parse_args_def parser_error_def split: sum.splits subcommand_raw.splits)

lemma parse_args_verbose:
  assumes "parse_args lib argv w = (Inr args, w1)" and "scan_main lib argv = Split raw"
  shows "store (py_int lib) ''-v/--verbose'' verbose_choices 1 (raw_verbose raw)
           = Inr (arg_verbose args)"
  using assms
  by (auto simp: parse_args_def parser_error_def split: sum.splits subcommand_raw.splits)

lemma parse_args_world:
  "parse_args lib argv w = (Inr args, w1) \<Longrightarrow> w1 = w"
  by (auto simp: parse_args_def parser_error_def
      split: scanned.splits sum.splits subcommand_raw.splits)

lemma parse_args_split:
  "parse_args lib argv w = (Inr args, w1) \<Longrightarrow> \<exists>raw. scan_main lib argv = Split raw"
  by (auto simp: parse_args_def parser_error_def split: scanned.splits)

lemma parse_args_verbose_range:
  assumes "parse_args lib argv w = (Inr args, w1)"
  shows "arg_verbose args \<in> {0, 1, 2}"
proof -
  obtain raw where raw: "scan_main lib argv = Split raw"
    using assms parse_args_split by blast
  from parse_args_verbose [OF assms raw] have "arg_verbose args \<in> set verbose_choices"
    by (rule store_range) (simp add: verbose_choices_def)
  then show ?thesis by (simp add: verbose_choices_def)
qed

lemma getitem_levels:
  "v \<in> {0, 1, 2} \<Longrightarrow>
     getitem levels v = Inr (if v = 0 then CRITICAL else if v = 1 then WARNING else DEBUG)"
  by (auto simp: getitem_def levels_def)

lemma compile_parser_accepts_iff:
  assumes "scan_compile lib tokens = Split r"
  shows "(\<exists>args. compile_parser lib tokens = Split args) \<longleftrightarrow>
     set (raw_input_codec r) \<subseteq> set input_codec_choices \<and>
     set (raw_output_codec r) \<subseteq> set output_codec_choices"
proof (cases "codec_options r")
  case (Inl e)
  then have "\<not> (\<exists>i out. codec_options r = Inr (i, out))" by simp
  then have "\<not> (set (raw_input_codec r) \<subseteq> set input_codec_choices \<and>
      set (raw_output_codec r) \<subseteq> set output_codec_choices)"
    using codec_options_accepts_iff [of r] by blast
  then show ?thesis using assms Inl by (simp add: compile_parser_def)
next
  case (Inr p)
  obtain i out where "p = (i, out)" by (cases p)
  with Inr have p: "codec_options r = Inr (i, out)" by simp
  then have "set (raw_input_codec r) \<subseteq> set input_codec_choices \<and>
      set (raw_output_codec r) \<subseteq> set output_codec_choices"
    using codec_options_accepts_iff [of r] by blast
  then show ?thesis using assms p by (simp add: compile_parser_def)
qed

lemma compile_parser_rejects:
  "scan_compile lib tokens = Split r \<Longrightarrow> \<not> (\<exists>args. compile_parser lib tokens = Split args)
     \<Longrightarrow> \<exists>e. compile_parser lib tokens = Error e"
  by (auto simp: compile_parser_def split: sum.splits)

subsection \<open>Codec identifiers\<close>

text \<open>
  Claim C4: the input codecs are \<^verbatim>\<open>ber\<close>, \<^verbatim>\<open>der\<close>, \<^verbatim>\<open>per\<close>, \<^verbatim>\<open>uper\<close>, \<^verbatim>\<open>jer\<close> and \<^verbatim>\<open>xer\<close>, and
  the output codecs are these and \<^verbatim>\<open>gser\<close>. A \<^verbatim>\<open>convert\<close> invocation that gives \<^verbatim>\<open>gser\<close> to
  \<^verbatim>\<open>-i\<close> is rejected (status 2), and one whose other arguments are in order is accepted
  exactly when every value given to \<^verbatim>\<open>-i\<close> is one of the six names and every value given
  to \<^verbatim>\<open>-o\<close> one of the seven. The same holds for the \<^verbatim>\<open>compile\<close> command of the shell.
\<close>

theorem C4_codec_identifiers:
  "set input_codec_choices = {''ber'', ''der'', ''per'', ''uper'', ''jer'', ''xer''}
   \<and> set output_codec_choices = {''ber'', ''der'', ''per'', ''uper'', ''jer'', ''xer'', ''gser''}
   \<and> (scan_main lib argv = Split raw \<and> raw_subcommand raw = Convert_raw c \<longrightarrow>
        (''gser'' \<in> set (raw_input_codec c) \<longrightarrow> fst (parse_args lib argv w) = Inl 2)
        \<and> ((\<forall>s \<in> set (raw_verbose raw). \<exists>n \<in> set verbose_choices. py_int lib s = Some n) \<longrightarrow>
             ((\<exists>args. fst (parse_args lib argv w) = Inr args) \<longleftrightarrow>
                set (raw_input_codec c) \<subseteq> {''ber'', ''der'', ''per'', ''uper'', ''jer'', ''xer''} \<and>
                set (raw_output_codec c) \<subseteq>
                  {''ber'', ''der'', ''per'', ''uper'', ''jer'', ''xer'', ''gser''})))
   \<and> (scan_compile lib tokens = Split r \<longrightarrow>
        (''gser'' \<in> set (raw_input_codec r) \<longrightarrow> (\<exists>e. compile_parser lib tokens = Error e))
        \<and> ((\<exists>args. compile_parser lib tokens = Split args) \<longleftrightarrow>
              set (raw_input_codec r) \<subseteq> {''ber'', ''der'', ''per'', ''uper'', ''jer'', ''xer''} \<and>
              set (raw_output_codec r) \<subseteq>
                {''ber'', ''der'', ''per'', ''uper'', ''jer'', ''xer'', ''gser''}))"
proof -
  have ins: "set input_codec_choices = {''ber'', ''der'', ''per'', ''uper'', ''jer'', ''xer''}"
    by (auto simp: input_codec_choices_def)
  have outs: "set output_codec_choices =
      {''ber'', ''der'', ''per'', ''uper'', ''jer'', ''xer'', ''gser''}"
    by (auto simp: output_codec_choices_def)
  have no_gser: "''gser'' \<notin> set input_codec_choices"
    by (simp add: input_codec_choices_def)
  have main_part: "(''gser'' \<in> set (raw_input_codec c) \<longrightarrow> fst (parse_args lib argv w) = Inl 2)
      \<and> ((\<forall>s \<in> set (raw_verbose raw). \<exists>n \<in> set verbose_choices. py_int lib s = Some n) \<longrightarrow>
           ((\<exists>args. fst (parse_args lib argv w) = Inr args) \<longleftrightarrow>
              set (raw_input_codec c) \<subseteq> set input_codec_choices \<and>
              set (raw_output_codec c) \<subseteq> set output_codec_choices))"
    if split: "scan_main lib argv = Split raw" and sub: "raw_subcommand raw = Convert_raw c"
  proof (intro conjI impI)
    assume "''gser'' \<in> set (raw_input_codec c)"
    with no_gser have "\<not> set (raw_input_codec c) \<subseteq> set input_codec_choices" by blast
    then have "\<not> (\<exists>args. fst (parse_args lib argv w) = Inr args)"
      using parse_args_accepts_iff [OF split, of w] sub by simp
    then obtain status where "fst (parse_args lib argv w) = Inl status"
      by (cases "fst (parse_args lib argv w)") auto
    then show "fst (parse_args lib argv w) = Inl 2"
      using parse_args_rejects [OF _ split] by blast
  next
    assume "\<forall>s \<in> set (raw_verbose raw). \<exists>n \<in> set verbose_choices. py_int lib s = Some n"
    then show "(\<exists>args. fst (parse_args lib argv w) = Inr args) \<longleftrightarrow>
        set (raw_input_codec c) \<subseteq> set input_codec_choices \<and>
        set (raw_output_codec c) \<subseteq> set output_codec_choices"
      using parse_args_accepts_iff [OF split, of w] sub by simp
  qed
  have shell_part: "(''gser'' \<in> set (raw_input_codec r) \<longrightarrow> (\<exists>e. compile_parser lib tokens = Error e))
      \<and> ((\<exists>args. compile_parser lib tokens = Split args) \<longleftrightarrow>
            set (raw_input_codec r) \<subseteq> set input_codec_choices \<and>
            set (raw_output_codec r) \<subseteq> set output_codec_choices)"
    if split: "scan_compile lib tokens = Split r"
  proof (intro conjI impI)
    assume "''gser'' \<in> set (raw_input_codec r)"
    with no_gser have "\<not> set (raw_input_codec r) \<subseteq> set input_codec_choices" by blast
    then have "\<not> (\<exists>args. compile_parser lib tokens = Split args)"
      using compile_parser_accepts_iff [OF split] by simp
    then show "\<exists>e. compile_parser lib tokens = Error e"
      by (rule compile_parser_rejects [OF split])
  next
    show "(\<exists>args. compile_parser lib tokens = Split args) \<longleftrightarrow>
        set (raw_input_codec r) \<subseteq> set input_codec_choices \<and>
        set (raw_output_codec r) \<subseteq> set output_codec_choices"
      by (rule compile_parser_accepts_iff [OF split])
  qed
  show ?thesis
  proof (intro conjI)
    show "set input_codec_choices = {''ber'', ''der'', ''per'', ''uper'', ''jer'', ''xer''}"
      by (rule ins)
    show "set output_codec_choices =
        {''ber'', ''der'', ''per'', ''uper'', ''jer'', ''xer'', ''gser''}"
      by (rule outs)
    show "scan_main lib argv = Split raw \<and> raw_subcommand raw = Convert_raw c \<longrightarrow>
        (''gser'' \<in> set (raw_input_codec c) \<longrightarrow> fst (parse_args lib argv w) = Inl 2)
        \<and> ((\<forall>s \<in> set (raw_verbose raw). \<exists>n \<in> set verbose_choices. py_int lib s = Some n) \<longrightarrow>
             ((\<exists>args. fst (parse_args lib argv w) = Inr args) \<longleftrightarrow>
                set (raw_input_codec c) \<subseteq> {''ber'', ''der'', ''per'', ''uper'', ''jer'', ''xer''} \<and>
                set (raw_output_codec c) \<subseteq>
                  {''ber'', ''der'', ''per'', ''uper'', ''jer'', ''xer'', ''gser''}))"
    proof
      assume "scan_main lib argv = Split raw \<and> raw_subcommand raw = Convert_raw c"
      then have a: "scan_main lib argv = Split raw" and b: "raw_subcommand raw = Convert_raw c"
        by (rule conjunct1, rule conjunct2)
      from main_part [OF a b, unfolded ins outs]
      show "(''gser'' \<in> set (raw_input_codec c) \<longrightarrow> fst (parse_args lib argv w) = Inl 2)
        \<and> ((\<forall>s \<in> set (raw_verbose raw). \<exists>n \<in> set verbose_choices. py_int lib s = Some n) \<longrightarrow>
             ((\<exists>args. fst (parse_args lib argv w) = Inr args) \<longleftrightarrow>
                set (raw_input_codec c) \<subseteq> {''ber'', ''der'', ''per'', ''uper'', ''jer'', ''xer''} \<and>
                set (raw_output_codec c) \<subseteq>
                  {''ber'', ''der'', ''per'', ''uper'', ''jer'', ''xer'', ''gser''}))" .
    qed
    show "scan_compile lib tokens = Split r \<longrightarrow>
        (''gser'' \<in> set (raw_input_codec r) \<longrightarrow> (\<exists>e. compile_parser lib tokens = Error e))
        \<and> ((\<exists>args. compile_parser lib tokens = Split args) \<longleftrightarrow>
              set (raw_input_codec r) \<subseteq> {''ber'', ''der'', ''per'', ''uper'', ''jer'', ''xer''} \<and>
              set (raw_output_codec r) \<subseteq>
                {''ber'', ''der'', ''per'', ''uper'', ''jer'', ''xer'', ''gser''})"
    proof
      assume a: "scan_compile lib tokens = Split r"
      from shell_part [OF a, unfolded ins outs]
      show "(''gser'' \<in> set (raw_input_codec r) \<longrightarrow> (\<exists>e. compile_parser lib tokens = Error e))
        \<and> ((\<exists>args. compile_parser lib tokens = Split args) \<longleftrightarrow>
              set (raw_input_codec r) \<subseteq> {''ber'', ''der'', ''per'', ''uper'', ''jer'', ''xer''} \<and>
              set (raw_output_codec r) \<subseteq>
                {''ber'', ''der'', ''per'', ''uper'', ''jer'', ''xer'', ''gser''})" .
    qed
  qed
qed

text \<open>
  The theorem at \<^verbatim>\<open>convert -i gser a.asn T 00\<close>, \<^verbatim>\<open>convert -i uper -o gser a.asn T 00\<close>,
  and at the shell's \<^verbatim>\<open>compile -i gser a.asn\<close> and \<^verbatim>\<open>compile -o jer a.asn\<close>.
\<close>

theorem C4_codec_identifiers_witness:
  "fst (parse_args example_library [''convert'', ''-i'', ''gser'', ''a.asn'', ''T'', ''00'']
          world0) = Inl 2
   \<and> (\<exists>args. fst (parse_args example_library
                    [''convert'', ''-i'', ''uper'', ''-o'', ''gser'', ''a.asn'', ''T'', ''00'']
                    world0) = Inr args)
   \<and> (\<exists>e. compile_parser example_library [''-i'', ''gser'', ''a.asn''] = Error e)
   \<and> (\<exists>args. compile_parser example_library [''-o'', ''jer'', ''a.asn''] = Split args)"
proof -
  let ?conv = "\<lambda>i out. \<lparr>raw_input_codec = i, raw_output_codec = out,
      raw_specification = [''a.asn''], raw_type = ''T'', raw_hexstring = ''00''\<rparr>"
  let ?raw = "\<lambda>i out. \<lparr>raw_debug = False, raw_verbose = [],
      raw_subcommand = Convert_raw (?conv i out)\<rparr>"
  let ?craw = "\<lambda>i out. \<lparr>raw_input_codec = i, raw_output_codec = out,
      raw_specification = [''a.asn'']\<rparr>"
  have s1: "scan_main example_library [''convert'', ''-i'', ''gser'', ''a.asn'', ''T'', ''00'']
      = Split (?raw [''gser''] [])
      \<and> raw_subcommand (?raw [''gser''] []) = Convert_raw (?conv [''gser''] [])"
    by code_simp
  have g1: "''gser'' \<in> set (raw_input_codec (?conv [''gser''] []))"
    by simp
  have s2: "scan_main example_library
      [''convert'', ''-i'', ''uper'', ''-o'', ''gser'', ''a.asn'', ''T'', ''00'']
      = Split (?raw [''uper''] [''gser''])
      \<and> raw_subcommand (?raw [''uper''] [''gser'']) = Convert_raw (?conv [''uper''] [''gser''])"
    by code_simp
  have v2: "\<forall>s \<in> set (raw_verbose (?raw [''uper''] [''gser''])).
      \<exists>n \<in> set verbose_choices. py_int example_library s = Some n"
    by simp
  have c2: "set (raw_input_codec (?conv [''uper''] [''gser'']))
        \<subseteq> {''ber'', ''der'', ''per'', ''uper'', ''jer'', ''xer''}
      \<and> set (raw_output_codec (?conv [''uper''] [''gser'']))
        \<subseteq> {''ber'', ''der'', ''per'', ''uper'', ''jer'', ''xer'', ''gser''}"
    by simp
  have s3: "scan_compile example_library [''-i'', ''gser'', ''a.asn''] = Split (?craw [''gser''] [])"
    by code_simp
  have g3: "''gser'' \<in> set (raw_input_codec (?craw [''gser''] []))"
    by simp
  have s4: "scan_compile example_library [''-o'', ''jer'', ''a.asn''] = Split (?craw [] [''jer''])"
    by code_simp
  have c4: "set (raw_input_codec (?craw [] [''jer'']))
        \<subseteq> {''ber'', ''der'', ''per'', ''uper'', ''jer'', ''xer''}
      \<and> set (raw_output_codec (?craw [] [''jer'']))
        \<subseteq> {''ber'', ''der'', ''per'', ''uper'', ''jer'', ''xer'', ''gser''}"
    by simp
  note main1 = C4_codec_identifiers [THEN conjunct2, THEN conjunct2, THEN conjunct1, THEN mp, OF s1]
  note main2 = C4_codec_identifiers [THEN conjunct2, THEN conjunct2, THEN conjunct1, THEN mp, OF s2]
  note shell3 = C4_codec_identifiers [THEN conjunct2, THEN conjunct2, THEN conjunct2, THEN mp, OF s3]
  note shell4 = C4_codec_identifiers [THEN conjunct2, THEN conjunct2, THEN conjunct2, THEN mp, OF s4]
  have r1: "fst (parse_args example_library [''convert'', ''-i'', ''gser'', ''a.asn'', ''T'', ''00'']
      world0) = Inl 2"
    by (rule mp [OF conjunct1 [OF main1] g1])
  have r2: "\<exists>args. fst (parse_args example_library
      [''convert'', ''-i'', ''uper'', ''-o'', ''gser'', ''a.asn'', ''T'', ''00''] world0) = Inr args"
    by (rule iffD2 [OF mp [OF conjunct2 [OF main2] v2] c2])
  have r3: "\<exists>e. compile_parser example_library [''-i'', ''gser'', ''a.asn''] = Error e"
    by (rule mp [OF conjunct1 [OF shell3] g3])
  have r4: "\<exists>args. compile_parser example_library [''-o'', ''jer'', ''a.asn''] = Split args"
    by (rule iffD2 [OF conjunct2 [OF shell4] c4])
  from r1 r2 r3 r4 show ?thesis by (intro conjI)
qed

text \<open>
  Claim C10: in the \<^verbatim>\<open>convert\<close> subcommand and in the \<^verbatim>\<open>compile\<close> command of the shell,
  the input codec is \<^verbatim>\<open>ber\<close> when \<^verbatim>\<open>-i\<close> is not given, and the output codec is \<^verbatim>\<open>gser\<close> when
  \<^verbatim>\<open>-o\<close> is not given.
\<close>

theorem C10_default_codecs:
  "(parse_args lib argv w = (Inr args, w1) \<and> scan_main lib argv = Split raw
      \<and> raw_subcommand raw = Convert_raw c \<longrightarrow>
        (\<exists>a. arg_func args = Do_convert a
           \<and> (raw_input_codec c = [] \<longrightarrow> arg_input_codec a = ''ber'')
           \<and> (raw_output_codec c = [] \<longrightarrow> arg_output_codec a = ''gser'')))
   \<and> (compile_parser lib tokens = Split cargs \<and> scan_compile lib tokens = Split r \<longrightarrow>
        (raw_input_codec r = [] \<longrightarrow> arg_input_codec cargs = ''ber'')
        \<and> (raw_output_codec r = [] \<longrightarrow> arg_output_codec cargs = ''gser''))"
proof (intro conjI impI)
  assume h: "parse_args lib argv w = (Inr args, w1) \<and> scan_main lib argv = Split raw
      \<and> raw_subcommand raw = Convert_raw c"
  then obtain v i out where opts: "codec_options c = Inr (i, out)"
    and args: "args = \<lparr>arg_debug = raw_debug raw, arg_verbose = v,
        arg_func = Do_convert
          \<lparr>arg_input_codec = i, arg_output_codec = out,
           arg_specification = raw_specification c, arg_type = raw_type c,
           arg_hexstring = raw_hexstring c\<rparr>\<rparr>"
    by (auto simp: parse_args_def parser_error_def split: sum.splits)
  from codec_options_values [OF opts] args
  show "\<exists>a. arg_func args = Do_convert a
           \<and> (raw_input_codec c = [] \<longrightarrow> arg_input_codec a = ''ber'')
           \<and> (raw_output_codec c = [] \<longrightarrow> arg_output_codec a = ''gser'')"
    by simp
next
  assume h: "compile_parser lib tokens = Split cargs \<and> scan_compile lib tokens = Split r"
  then obtain i out where opts: "codec_options r = Inr (i, out)"
    and cargs: "cargs = \<lparr>arg_input_codec = i, arg_output_codec = out,
        arg_specification = raw_specification r\<rparr>"
    by (auto simp: compile_parser_def split: sum.splits)
  from codec_options_values [OF opts] cargs
  show "raw_input_codec r = [] \<Longrightarrow> arg_input_codec cargs = ''ber''"
    and "raw_output_codec r = [] \<Longrightarrow> arg_output_codec cargs = ''gser''"
    by simp_all
qed

text \<open>The theorem at \<^verbatim>\<open>convert a.asn T 00\<close> and at the shell's \<^verbatim>\<open>compile a.asn\<close>.\<close>

theorem C10_default_codecs_witness:
  "(\<exists>a. arg_func (projr (fst (parse_args example_library [''convert'', ''a.asn'', ''T'', ''00'']
            world0))) = Do_convert a
        \<and> arg_input_codec a = ''ber'' \<and> arg_output_codec a = ''gser'')
   \<and> compile_parser example_library [''a.asn'']
       = Split \<lparr>arg_input_codec = ''ber'', arg_output_codec = ''gser'',
                arg_specification = [''a.asn'']\<rparr>"
proof -
  let ?conv = "\<lparr>raw_input_codec = [], raw_output_codec = [],
      raw_specification = [''a.asn''], raw_type = ''T'', raw_hexstring = ''00''\<rparr>"
  let ?raw = "\<lparr>raw_debug = False, raw_verbose = [], raw_subcommand = Convert_raw ?conv\<rparr>"
  let ?args = "\<lparr>arg_debug = False, arg_verbose = 1,
      arg_func = Do_convert \<lparr>arg_input_codec = ''ber'', arg_output_codec = ''gser'',
        arg_specification = [''a.asn''], arg_type = ''T'', arg_hexstring = ''00''\<rparr>\<rparr>"
  let ?craw = "\<lparr>raw_input_codec = [], raw_output_codec = [], raw_specification = [''a.asn'']\<rparr>"
  let ?cargs = "\<lparr>arg_input_codec = ''ber'', arg_output_codec = ''gser'',
      arg_specification = [''a.asn'']\<rparr>"
  have p: "parse_args example_library [''convert'', ''a.asn'', ''T'', ''00''] world0
      = (Inr ?args, world0)"
    by code_simp
  have h1: "parse_args example_library [''convert'', ''a.asn'', ''T'', ''00''] world0
        = (Inr ?args, world0)
      \<and> scan_main example_library [''convert'', ''a.asn'', ''T'', ''00''] = Split ?raw
      \<and> raw_subcommand ?raw = Convert_raw ?conv"
    by code_simp
  have c: "compile_parser example_library [''a.asn''] = Split ?cargs"
    by code_simp
  have h2: "compile_parser example_library [''a.asn''] = Split ?cargs
      \<and> scan_compile example_library [''a.asn''] = Split ?craw"
    by code_simp
  from C10_default_codecs [THEN conjunct1, THEN mp, OF h1]
  have "\<exists>a. arg_func ?args = Do_convert a
      \<and> arg_input_codec a = ''ber'' \<and> arg_output_codec a = ''gser''"
    by simp
  moreover from C10_default_codecs [THEN conjunct2, THEN mp, OF h2]
  have "arg_input_codec ?cargs = ''ber'' \<and> arg_output_codec ?cargs = ''gser''"
    by simp
  ultimately show ?thesis
    using p c by simp
qed

section \<open>The entry point\<close>

text \<open>What \<open>main\<close> does once the arguments are accepted.\<close>

lemma main_accepted:
  assumes "parse_args lib argv w = (Inr args, w1)"
  shows "main lib argv stdin typed w =
     (case call_func lib args stdin typed
             (basicConfig (if arg_verbose args = 0 then CRITICAL
                           else if arg_verbose args = 1 then WARNING else DEBUG) w) of
        (Inr u, w3) \<Rightarrow> (Return, w3)
      | (Inl e, w3) \<Rightarrow>
          if arg_debug args then (Raise e, w3) else sys_exit (''error: '' @ str e) w3)"
proof -
  have w1: "w1 = w" using assms by (rule parse_args_world)
  have "arg_verbose args \<in> {0, 1, 2}" using assms by (rule parse_args_verbose_range)
  then have "getitem levels (arg_verbose args) =
      Inr (if arg_verbose args = 0 then CRITICAL
           else if arg_verbose args = 1 then WARNING else DEBUG)"
    by (rule getitem_levels)
  then show ?thesis
    using assms w1 by (simp add: main_def Let_def split: prod.splits sum.splits)
qed

lemma main_rejected:
  "parse_args lib argv w = (Inl status, w1) \<Longrightarrow>
     main lib argv stdin typed w = (SystemExit status, w1)"
  by (simp add: main_def)

text \<open>
  Claim C2: when the arguments are accepted and \<^verbatim>\<open>--debug\<close> is not given, an exception
  of the subcommand, whatever its class, ends \<^verbatim>\<open>_main\<close> with the line \<^verbatim>\<open>error: \<close> and the
  message on standard error and the exit status 1; with \<^verbatim>\<open>--debug\<close> the exception
  leaves \<^verbatim>\<open>_main\<close> as it is; and when the subcommand returns, \<^verbatim>\<open>_main\<close> returns and the
  exit status is 0.

  Here \<open>r\<close> is how the subcommand ends and \<open>w3\<close> the state it leaves.
\<close>

theorem C2_exit_status:
  assumes accepted: "parse_args lib argv w = (Inr args, w1)"
    and ran: "call_func lib args stdin typed (basicConfig (levels ! nat (arg_verbose args)) w1)
                = (r, w3)"
  shows "(\<not> arg_debug args \<and> r = Inl e \<longrightarrow>
            main lib argv stdin typed w =
              (SystemExit 1, w3\<lparr>stderr := stderr w3 @ [''error: '' @ str e]\<rparr>)
            \<and> exit_code (fst (main lib argv stdin typed w)) = 1)
       \<and> (arg_debug args \<and> r = Inl e \<longrightarrow> main lib argv stdin typed w = (Raise e, w3))
       \<and> (r = Inr () \<longrightarrow>
            main lib argv stdin typed w = (Return, w3)
            \<and> exit_code (fst (main lib argv stdin typed w)) = 0)"
proof -
  have w1: "w1 = w" using accepted by (rule parse_args_world)
  have "arg_verbose args \<in> {0, 1, 2}" using accepted by (rule parse_args_verbose_range)
  then have level: "levels ! nat (arg_verbose args) =
      (if arg_verbose args = 0 then CRITICAL else if arg_verbose args = 1 then WARNING else DEBUG)"
    by (auto simp: levels_def)
  show ?thesis
    using ran unfolding main_accepted [OF accepted] level w1
    by (auto simp: sys_exit_def)
qed

text \<open>
  The theorem at three invocations: the output codec \<^verbatim>\<open>xer\<close>, for which the example's
  encoder raises, without and with \<^verbatim>\<open>-d\<close>, and a conversion that succeeds.
\<close>

theorem C2_exit_status_witness:
  "main example_library [''convert'', ''-o'', ''xer'', ''a.asn'', ''T'', ''0101ff''] [] [] world0
     = (SystemExit 1, world0\<lparr>stderr := [''error: no encoder''], logging := Some WARNING\<rparr>)
   \<and> main example_library [''-d'', ''convert'', ''-o'', ''xer'', ''a.asn'', ''T'', ''0101ff''] [] []
       world0
     = (Raise (EncodeError ''no encoder''), world0\<lparr>logging := Some WARNING\<rparr>)
   \<and> main example_library [''convert'', ''a.asn'', ''T'', ''0101ff''] [] [] world0
     = (Return, world0\<lparr>stdout := [''TRUE''], logging := Some WARNING\<rparr>)
   \<and> exit_code (fst (main example_library [''convert'', ''a.asn'', ''T'', ''0101ff''] [] []
       world0)) = 0"
proof -
  let ?conv = "\<lambda>out. \<lparr>arg_input_codec = ''ber'', arg_output_codec = out,
      arg_specification = [''a.asn''], arg_type = ''T'', arg_hexstring = ''0101ff''\<rparr>"
  let ?args = "\<lambda>d out. \<lparr>arg_debug = d, arg_verbose = 1, arg_func = Do_convert (?conv out)\<rparr>"
  let ?w = "world0\<lparr>logging := Some WARNING\<rparr>"
  have a1: "parse_args example_library
      [''convert'', ''-o'', ''xer'', ''a.asn'', ''T'', ''0101ff''] world0
      = (Inr (?args False ''xer''), world0)"
    by code_simp
  have r1: "call_func example_library (?args False ''xer'') [] []
      (basicConfig (levels ! nat (arg_verbose (?args False ''xer''))) world0)
      = (Inl (EncodeError ''no encoder''), ?w)"
    by code_simp
  have a2: "parse_args example_library
      [''-d'', ''convert'', ''-o'', ''xer'', ''a.asn'', ''T'', ''0101ff''] world0
      = (Inr (?args True ''xer''), world0)"
    by code_simp
  have r2: "call_func example_library (?args True ''xer'') [] []
      (basicConfig (levels ! nat (arg_verbose (?args True ''xer''))) world0)
      = (Inl (EncodeError ''no encoder''), ?w)"
    by code_simp
  have a3: "parse_args example_library [''convert'', ''a.asn'', ''T'', ''0101ff''] world0
      = (Inr (?args False ''gser''), world0)"
    by code_simp
  have r3: "call_func example_library (?args False ''gser'') [] []
      (basicConfig (levels ! nat (arg_verbose (?args False ''gser''))) world0)
      = (Inr (), ?w\<lparr>stdout := [''TRUE'']\<rparr>)"
    by code_simp
  from C2_exit_status [OF a1 r1, of "EncodeError ''no encoder''"]
    C2_exit_status [OF a2 r2, of "EncodeError ''no encoder''"]
    C2_exit_status [OF a3 r3]
  show ?thesis
    by (simp add: world0_def)
qed

text \<open>
  Claim C5: \<^verbatim>\<open>--verbose\<close> accepts the values 0, 1 and 2 and no other: a value that does not
  convert to one of them ends the parsing with a usage error (status 2), and accepted
  arguments hold one of the three, the conversion of the last value given, or 1 when the
  option is absent. The level given to \<^verbatim>\<open>logging.basicConfig\<close>, which nothing changes
  afterwards, is \<^verbatim>\<open>CRITICAL\<close> for 0 (the level the help text calls disabled), \<^verbatim>\<open>WARNING\<close>
  for 1 and \<^verbatim>\<open>DEBUG\<close> for 2.
\<close>

theorem C5_verbose_levels:
  assumes split: "scan_main lib argv = Split raw"
  shows "((\<exists>s \<in> set (raw_verbose raw). \<forall>n. py_int lib s = Some n \<longrightarrow> n \<notin> {0, 1, 2})
            \<longrightarrow> fst (parse_args lib argv w) = Inl 2)
       \<and> (parse_args lib argv w = (Inr args, w1) \<longrightarrow>
            arg_verbose args \<in> {0, 1, 2}
            \<and> (raw_verbose raw = [] \<longrightarrow> arg_verbose args = 1)
            \<and> (raw_verbose raw \<noteq> [] \<longrightarrow>
                 py_int lib (last (raw_verbose raw)) = Some (arg_verbose args))
            \<and> logging (snd (main lib argv stdin typed w)) =
                 Some (if arg_verbose args = 0 then CRITICAL
                       else if arg_verbose args = 1 then WARNING else DEBUG))"
proof (intro conjI impI)
  assume bad: "\<exists>s \<in> set (raw_verbose raw). \<forall>n. py_int lib s = Some n \<longrightarrow> n \<notin> {0, 1, 2}"
  then have "\<not> (\<forall>s \<in> set (raw_verbose raw). \<exists>n \<in> set verbose_choices. py_int lib s = Some n)"
    by (auto simp: verbose_choices_def)
  then have "\<not> (\<exists>args. fst (parse_args lib argv w) = Inr args)"
    using parse_args_accepts_iff [OF split, of w] by blast
  then obtain status where "fst (parse_args lib argv w) = Inl status"
    by (cases "fst (parse_args lib argv w)") auto
  then show "fst (parse_args lib argv w) = Inl 2"
    using parse_args_rejects [OF _ split] by blast
next
  assume accepted: "parse_args lib argv w = (Inr args, w1)"
  show "arg_verbose args \<in> {0, 1, 2}"
    using accepted by (rule parse_args_verbose_range)
  note stored = parse_args_verbose [OF accepted split]
  show "arg_verbose args = 1" if "raw_verbose raw = []"
    using stored that by simp
  show "py_int lib (last (raw_verbose raw)) = Some (arg_verbose args)" if "raw_verbose raw \<noteq> []"
    using store_last [OF stored that] by simp
  let ?level = "if arg_verbose args = 0 then CRITICAL
                else if arg_verbose args = 1 then WARNING else DEBUG"
  let ?w2 = "basicConfig ?level w"
  have frame: "logging (snd (call_func lib args stdin typed ?w2)) = logging ?w2"
    using do_convert_only_prints [of ?w2 lib _ stdin] do_shell_world [of lib typed ?w2]
    by (auto simp: call_func_def only_prints_def split: func.splits)
  obtain r w3 where r: "call_func lib args stdin typed ?w2 = (r, w3)"
    by (cases "call_func lib args stdin typed ?w2")
  with frame have "logging w3 = Some ?level" by (simp add: basicConfig_def)
  then show "logging (snd (main lib argv stdin typed w)) = Some ?level"
    unfolding main_accepted [OF accepted] r
    by (cases r) (simp_all add: sys_exit_def)
qed

text \<open>The theorem at \<^verbatim>\<open>-v 3\<close>, \<^verbatim>\<open>-v 0\<close>, \<^verbatim>\<open>-v 1\<close>, \<^verbatim>\<open>-v 2\<close> and at no \<^verbatim>\<open>-v\<close>.\<close>

theorem C5_verbose_levels_witness:
  "fst (parse_args example_library [''-v'', ''3'', ''shell''] world0) = Inl 2
   \<and> logging (snd (main example_library [''-v'', ''0'', ''shell''] [] [] world0)) = Some CRITICAL
   \<and> logging (snd (main example_library [''-v'', ''1'', ''shell''] [] [] world0)) = Some WARNING
   \<and> logging (snd (main example_library [''-v'', ''2'', ''shell''] [] [] world0)) = Some DEBUG
   \<and> logging (snd (main example_library [''shell''] [] [] world0)) = Some WARNING"
proof -
  let ?raw = "\<lambda>v. \<lparr>raw_debug = False, raw_verbose = v, raw_subcommand = Shell_raw\<rparr>"
  let ?args = "\<lambda>n. \<lparr>arg_debug = False, arg_verbose = n, arg_func = Do_shell\<rparr>"
  have s3: "scan_main example_library [''-v'', ''3'', ''shell''] = Split (?raw [''3''])"
    by code_simp
  have bad: "\<exists>s \<in> set (raw_verbose (?raw [''3''])). \<forall>n. py_int example_library s = Some n \<longrightarrow> n \<notin> {0, 1, 2}"
    by (simp add: example_library_def example_int_def)
  have rejected: "fst (parse_args example_library [''-v'', ''3'', ''shell''] world0) = Inl 2"
    using C5_verbose_levels [OF s3, of world0] bad by blast
  have s0: "scan_main example_library [''-v'', ''0'', ''shell''] = Split (?raw [''0''])"
    by code_simp
  have p0: "parse_args example_library [''-v'', ''0'', ''shell''] world0 = (Inr (?args 0), world0)"
    by code_simp
  have s1: "scan_main example_library [''-v'', ''1'', ''shell''] = Split (?raw [''1''])"
    by code_simp
  have p1: "parse_args example_library [''-v'', ''1'', ''shell''] world0 = (Inr (?args 1), world0)"
    by code_simp
  have s2: "scan_main example_library [''-v'', ''2'', ''shell''] = Split (?raw [''2''])"
    by code_simp
  have p2: "parse_args example_library [''-v'', ''2'', ''shell''] world0 = (Inr (?args 2), world0)"
    by code_simp
  have sd: "scan_main example_library [''shell''] = Split (?raw [])"
    by code_simp
  have pd: "parse_args example_library [''shell''] world0 = (Inr (?args 1), world0)"
    by code_simp
  from C5_verbose_levels [OF s0, of world0 "?args 0" world0 "[]" "[]"] p0
    C5_verbose_levels [OF s1, of world0 "?args 1" world0 "[]" "[]"] p1
    C5_verbose_levels [OF s2, of world0 "?args 2" world0 "[]" "[]"] p2
    C5_verbose_levels [OF sd, of world0 "?args 1" world0 "[]" "[]"] pd
    rejected
  show ?thesis by simp
qed

text \<open>The path of the history file, for a home directory that does not end with a slash.\<close>

lemma history_path:
  "home \<noteq> [] \<Longrightarrow> last home \<noteq> CHR ''/'' \<Longrightarrow>
     os_path_join home ''.asn1tools-history.txt'' = home @ ''/.asn1tools-history.txt''"
  by (simp add: os_path_join_def startswith_def)

text \<open>
  Claim C7: the only file the program binds for writing is the history of the shell, at
  \<^verbatim>\<open>.asn1tools-history.txt\<close> in the user's home directory. Whatever the arguments, the
  standard input and the lines typed, \<^verbatim>\<open>_main\<close> adds that one path to the files when the
  subcommand is \<^verbatim>\<open>shell\<close>, and adds nothing otherwise.
\<close>

theorem C7_history_file_only:
  "files (snd (main lib argv stdin typed w)) =
     (case fst (parse_args lib argv w) of
        Inl status \<Rightarrow> files w
      | Inr args \<Rightarrow>
          (case arg_func args of
             Do_convert a \<Rightarrow> files w
           | Do_shell \<Rightarrow>
               files w @ [os_path_join (expanduser lib ''~'') ''.asn1tools-history.txt'']))"
proof (cases "parse_args lib argv w")
  case (Pair p w1)
  show ?thesis
  proof (cases p)
    case (Inl status)
    with Pair have "files w1 = files w"
      by (auto simp: parse_args_def parser_error_def print_def
          split: scanned.splits sum.splits subcommand_raw.splits)
    then show ?thesis
      using Pair Inl by (simp add: main_def)
  next
    case (Inr args)
    with Pair have accepted: "parse_args lib argv w = (Inr args, w1)" by simp
    let ?w2 = "basicConfig (if arg_verbose args = 0 then CRITICAL
                else if arg_verbose args = 1 then WARNING else DEBUG) w"
    obtain r w3 where r: "call_func lib args stdin typed ?w2 = (r, w3)"
      by (cases "call_func lib args stdin typed ?w2")
    have "files (snd (call_func lib args stdin typed ?w2)) =
        (case arg_func args of
           Do_convert a \<Rightarrow> files w
         | Do_shell \<Rightarrow> files w @ [os_path_join (expanduser lib ''~'') ''.asn1tools-history.txt''])"
      using do_convert_only_prints [of ?w2 lib _ stdin] do_shell_world [of lib typed ?w2]
      by (auto simp: call_func_def only_prints_def basicConfig_def split: func.splits)
    then have "files w3 =
        (case arg_func args of
           Do_convert a \<Rightarrow> files w
         | Do_shell \<Rightarrow> files w @ [os_path_join (expanduser lib ''~'') ''.asn1tools-history.txt''])"
      using r by simp
    then show ?thesis
      unfolding main_accepted [OF accepted] r
      using Pair Inr by (cases r) (simp_all add: sys_exit_def)
  qed
qed

text \<open>The theorem at a session of the shell and at a conversion of standard input.\<close>

theorem C7_history_file_only_witness:
  "files (snd (main example_library [''shell''] [] [''compile a.asn'', ''convert T 0101ff'']
       world0)) = [''/home/user/.asn1tools-history.txt'']
   \<and> files (snd (main example_library [''convert'', ''a.asn'', ''T'', ''-''] [''0101ff''] []
       world0)) = []"
proof -
  have "files (snd (main example_library [''shell''] [] [''compile a.asn'', ''convert T 0101ff'']
       world0)) =
     (case fst (parse_args example_library [''shell''] world0) of
        Inl status \<Rightarrow> files world0
      | Inr args \<Rightarrow>
          (case arg_func args of
             Do_convert a \<Rightarrow> files world0
           | Do_shell \<Rightarrow>
               files world0 @
               [os_path_join (expanduser example_library ''~'') ''.asn1tools-history.txt'']))"
    by (rule C7_history_file_only)
  also have "\<dots> = [''/home/user/.asn1tools-history.txt'']"
    by code_simp
  finally have shell: "files (snd (main example_library [''shell''] []
      [''compile a.asn'', ''convert T 0101ff''] world0)) = [''/home/user/.asn1tools-history.txt'']" .
  have "files (snd (main example_library [''convert'', ''a.asn'', ''T'', ''-''] [''0101ff''] []
       world0)) =
     (case fst (parse_args example_library [''convert'', ''a.asn'', ''T'', ''-''] world0) of
        Inl status \<Rightarrow> files world0
      | Inr args \<Rightarrow>
          (case arg_func args of
             Do_convert a \<Rightarrow> files world0
           | Do_shell \<Rightarrow>
               files world0 @
               [os_path_join (expanduser example_library ''~'') ''.asn1tools-history.txt'']))"
    by (rule C7_history_file_only)
  also have "\<dots> = []"
    by code_simp
  finally show ?thesis using shell by simp
qed

section \<open>The shell\<close>

lemma startswith_nonempty: "startswith s p \<Longrightarrow> p \<noteq> [] \<Longrightarrow> s \<noteq> []"
  by (auto simp: startswith_def)

lemma startswith_convert_not_compile:
  "startswith s ''convert'' \<Longrightarrow> \<not> startswith s ''compile''"
  by (auto simp: startswith_def dest!: arg_cong [where f = "take 4"])

lemma handle_command_compile_fails:
  assumes "(\<forall>args. compile_parser lib (tl (split line)) \<noteq> Split args) \<or>
           (\<exists>args e. compile_parser lib (tl (split line)) = Split args \<and>
              compile_files lib (arg_specification args) (arg_input_codec args)
                (arg_output_codec args) = Inl e \<and> is_Exception e)"
  shows "fst (handle_command_compile lib line w) = Inr None"
  using assms
  by (cases "compile_parser lib (tl (split line))")
    (auto simp: handle_command_compile_def shell_parse_args_def Let_def)

lemma shell_loop_without_compiled:
  assumes "\<forall>l \<in> set ls. \<not> startswith (strip l) ''compile'' \<and> strip l \<noteq> ''exit''"
  shows "shell_loop lib None (ls @ rest) w =
           shell_loop lib None rest (snd (shell_loop lib None ls w))"
  using assms
proof (induction ls arbitrary: w)
  case Nil
  show ?case by simp
next
  case (Cons l ls)
  then have l: "\<not> startswith (strip l) ''compile''" "strip l \<noteq> ''exit''"
    and ls: "\<forall>l \<in> set ls. \<not> startswith (strip l) ''compile'' \<and> strip l \<noteq> ''exit''"
    by simp_all
  note IH = Cons.IH [OF ls]
  show ?case
    using l by (simp add: Let_def IH handle_command_convert_def)
qed

text \<open>
  Claim C8: in the shell, a \<^verbatim>\<open>compile\<close> command that fails, because its arguments are
  not accepted or because the compilation raises an exception, leaves no compiled
  specification, whatever was compiled before: every \<^verbatim>\<open>convert\<close> command after it, up
  to the next \<^verbatim>\<open>compile\<close> command, prints that no compiled specification was found
  and converts nothing.

  Here \<open>between\<close> are the lines typed after the failed command and before the \<^verbatim>\<open>convert\<close>
  command \<open>c\<close>: none of them is a \<^verbatim>\<open>compile\<close> command or ends the shell.
\<close>

theorem C8_failed_compile_discards:
  assumes command: "startswith (strip typed) ''compile''"
    and fails:
      "(\<forall>args. compile_parser lib (tl (split (strip typed))) \<noteq> Split args) \<or>
       (\<exists>args e. compile_parser lib (tl (split (strip typed))) = Split args \<and>
          compile_files lib (arg_specification args) (arg_input_codec args)
            (arg_output_codec args) = Inl e \<and> is_Exception e)"
    and between: "\<forall>l \<in> set between. \<not> startswith (strip l) ''compile'' \<and> strip l \<noteq> ''exit''"
    and convert: "startswith (strip c) ''convert''"
  shows "fst (handle_command_compile lib (strip typed) w) = Inr None
       \<and> shell_loop lib compiled (typed # between @ c # later) w =
           shell_loop lib None later
             (print no_compiled_specification
               (snd (shell_loop lib None between
                      (snd (handle_command_compile lib (strip typed) w)))))"
proof -
  have discarded: "fst (handle_command_compile lib (strip typed) w) = Inr None"
    using fails by (rule handle_command_compile_fails)
  obtain w1 where w1: "handle_command_compile lib (strip typed) w = (Inr None, w1)"
    using discarded by (cases "handle_command_compile lib (strip typed) w") simp
  have "strip typed \<noteq> []"
    using command by (rule startswith_nonempty) simp
  then have "shell_loop lib compiled (typed # between @ c # later) w =
      shell_loop lib None (between @ c # later) w1"
    using command w1 by (simp add: Let_def)
  also have "\<dots> = shell_loop lib None (c # later) (snd (shell_loop lib None between w1))"
    using between by (rule shell_loop_without_compiled)
  also have "\<dots> = shell_loop lib None later
      (print no_compiled_specification (snd (shell_loop lib None between w1)))"
    using convert startswith_convert_not_compile [OF convert]
      startswith_nonempty [OF convert]
    by (simp add: Let_def handle_command_convert_def)
  finally show ?thesis
    using discarded w1 by simp
qed

text \<open>
  The theorem at two sessions that start with a compiled specification: a compilation
  that raises, then \<^verbatim>\<open>help\<close> and a conversion; and a \<^verbatim>\<open>compile\<close> command with the input
  codec \<^verbatim>\<open>gser\<close>, then a conversion.
\<close>

theorem C8_failed_compile_discards_witness:
  "shell_loop example_library (Some (example_spec ''ber'', example_spec ''gser'', ''gser''))
     ('' compile missing.asn '' # [''help''] @ ''convert T 0101ff'' # []) world0
   = (Inr (), world0\<lparr>stdout := [''error: No such file: missing.asn'', ''Commands:'',
        ''  compile'', ''  convert'', ''  exit'', ''  help'', no_compiled_specification]\<rparr>)
   \<and> shell_loop example_library (Some (example_spec ''ber'', example_spec ''gser'', ''gser''))
     (''compile -i gser a.asn'' # [] @ ''convert T 0101ff'' # []) world0
   = (Inr (), world0\<lparr>stdout := [''usage: compile'',
        ''compile: error: argument -i/--input-codec: invalid choice: gser'',
        no_compiled_specification]\<rparr>)"
proof -
  let ?compiled = "Some (example_spec ''ber'', example_spec ''gser'', ''gser'')"
  let ?cargs = "\<lparr>arg_input_codec = ''ber'', arg_output_codec = ''gser'',
      arg_specification = [''missing.asn'']\<rparr>"
  have command1: "startswith (strip '' compile missing.asn '') ''compile''"
    by code_simp
  have parsed1: "compile_parser example_library (tl (split (strip '' compile missing.asn '')))
      = Split ?cargs"
    by code_simp
  have raised1: "compile_files example_library (arg_specification ?cargs)
      (arg_input_codec ?cargs) (arg_output_codec ?cargs)
      = Inl (OtherException ''No such file: missing.asn'')"
    by (simp add: compile_files_def example_library_def example_parse_files_def)
  have fails1: "(\<forall>args. compile_parser example_library
        (tl (split (strip '' compile missing.asn ''))) \<noteq> Split args) \<or>
      (\<exists>args e. compile_parser example_library
          (tl (split (strip '' compile missing.asn ''))) = Split args \<and>
        compile_files example_library (arg_specification args) (arg_input_codec args)
          (arg_output_codec args) = Inl e \<and> is_Exception e)"
    using parsed1 raised1 by (intro disjI2 exI [of _ ?cargs]
        exI [of _ "OtherException ''No such file: missing.asn''"]) simp
  have between1: "\<forall>l \<in> set [''help'']. \<not> startswith (strip l) ''compile'' \<and> strip l \<noteq> ''exit''"
    by code_simp
  have convert: "startswith (strip ''convert T 0101ff'') ''convert''"
    by code_simp
  have "shell_loop example_library ?compiled
      ('' compile missing.asn '' # [''help''] @ ''convert T 0101ff'' # []) world0
    = shell_loop example_library None []
        (print no_compiled_specification
          (snd (shell_loop example_library None [''help'']
            (snd (handle_command_compile example_library (strip '' compile missing.asn '')
               world0)))))"
    by (rule conjunct2 [OF C8_failed_compile_discards
          [OF command1 fails1 between1 convert]])
  also have "\<dots> = (Inr (), world0\<lparr>stdout := [''error: No such file: missing.asn'',
      ''Commands:'', ''  compile'', ''  convert'', ''  exit'', ''  help'',
      no_compiled_specification]\<rparr>)"
    by code_simp
  finally have first: "shell_loop example_library ?compiled
      ('' compile missing.asn '' # [''help''] @ ''convert T 0101ff'' # []) world0
    = (Inr (), world0\<lparr>stdout := [''error: No such file: missing.asn'',
      ''Commands:'', ''  compile'', ''  convert'', ''  exit'', ''  help'',
      no_compiled_specification]\<rparr>)" .
  have command2: "startswith (strip ''compile -i gser a.asn'') ''compile''"
    by code_simp
  have parsed2: "compile_parser example_library (tl (split (strip ''compile -i gser a.asn'')))
      = Error (Invalid_choice ''-i/--input-codec'' ''gser'')"
    by code_simp
  have fails2: "(\<forall>args. compile_parser example_library
        (tl (split (strip ''compile -i gser a.asn''))) \<noteq> Split args) \<or>
      (\<exists>args e. compile_parser example_library
          (tl (split (strip ''compile -i gser a.asn''))) = Split args \<and>
        compile_files example_library (arg_specification args) (arg_input_codec args)
          (arg_output_codec args) = Inl e \<and> is_Exception e)"
    using parsed2 by simp
  have between2: "\<forall>l \<in> set []. \<not> startswith (strip l) ''compile'' \<and> strip l \<noteq> ''exit''"
    by simp
  have "shell_loop example_library ?compiled
      (''compile -i gser a.asn'' # [] @ ''convert T 0101ff'' # []) world0
    = shell_loop example_library None []
        (print no_compiled_specification
          (snd (shell_loop example_library None []
            (snd (handle_command_compile example_library (strip ''compile -i gser a.asn'')
               world0)))))"
    by (rule conjunct2 [OF C8_failed_compile_discards
          [OF command2 fails2 between2 convert]])
  also have "\<dots> = (Inr (), world0\<lparr>stdout := [''usage: compile'',
      ''compile: error: argument -i/--input-codec: invalid choice: gser'',
      no_compiled_specification]\<rparr>)"
    by code_simp
  finally show ?thesis using first by simp
qed

end
